theory Spec2Isabelle
  imports Main
begin

section \<open>Python values used by the three stages\<close>

text \<open>
  The repository is a pipeline of three AWS Lambda functions:
  \<^item> \<^verbatim>\<open>telegram-webhook-handler\<close>: intake of a chat event (registration, video intake);
  \<^item> \<^verbatim>\<open>lambda_video_processor\<close>: the publish stage;
  \<^item> \<^verbatim>\<open>lambda_response_handler\<close>: the notification stage.
  Every function of the source is a function on an explicit \<open>world\<close>; an exception is a
  value \<open>Inl e\<close> of the result.
\<close>

datatype exn =
    Exception string
  | ValueError string
  | AttributeError string
  | KeyError string
  | RequestException string
  | DatabaseError string
  | ClientError string

definition quoted :: "string \<Rightarrow> string" where
  "quoted s = [CHR 0x27] @ s @ [CHR 0x27]"

text \<open>\<^verbatim>\<open>str(e)\<close>; a \<^verbatim>\<open>KeyError\<close> prints its key in quotes.\<close>

fun str_exn :: "exn \<Rightarrow> string" where
  "str_exn (Exception m) = m"
| "str_exn (ValueError m) = m"
| "str_exn (AttributeError m) = m"
| "str_exn (KeyError k) = quoted k"
| "str_exn (RequestException m) = m"
| "str_exn (DatabaseError m) = m"
| "str_exn (ClientError m) = m"

text \<open>\<^verbatim>\<open>s.startswith(p)\<close>.\<close>

fun startswith :: "string \<Rightarrow> string \<Rightarrow> bool" where
  "startswith s [] = True"
| "startswith [] (p # ps) = False"
| "startswith (c # cs) (p # ps) = (c = p \<and> startswith cs ps)"

text \<open>
  \<^verbatim>\<open>s.replace(old, new)\<close> for a non-empty \<open>old\<close>: every non-overlapping occurrence,
  left to right. The counter is the number of characters of a matched occurrence still to
  be skipped.
\<close>

fun replace_go :: "string \<Rightarrow> string \<Rightarrow> nat \<Rightarrow> string \<Rightarrow> string" where
  "replace_go old new k [] = []"
| "replace_go old new (Suc k) (c # cs) = replace_go old new k cs"
| "replace_go old new 0 (c # cs) =
     (if startswith (c # cs) old then new @ replace_go old new (length old - 1) cs
      else c # replace_go old new 0 cs)"

definition replace :: "string \<Rightarrow> string \<Rightarrow> string \<Rightarrow> string" where
  "replace s old new = replace_go old new 0 s"

text \<open>\<^verbatim>\<open>needle in s\<close> on strings.\<close>

fun contains :: "string \<Rightarrow> string \<Rightarrow> bool" where
  "contains needle [] = (needle = [])"
| "contains needle (c # cs) = (startswith (c # cs) needle \<or> contains needle cs)"

text \<open>Truthiness of an optional string: \<^verbatim>\<open>None\<close> and \<^verbatim>\<open>''\<close> are falsy.\<close>

fun truthy :: "string option \<Rightarrow> bool" where
  "truthy None = False"
| "truthy (Some s) = (s \<noteq> [])"

text \<open>\<^verbatim>\<open>a or b\<close> on optional strings.\<close>

definition py_or :: "string option \<Rightarrow> string option \<Rightarrow> string option" where
  "py_or a b = (if truthy a then a else b)"

text \<open>An optional string inside an f-string.\<close>

fun fmt :: "string option \<Rightarrow> string" where
  "fmt None = ''None''"
| "fmt (Some s) = s"

section \<open>Database URL normalization\<close>

text \<open>
  \<^verbatim>\<open>convert_database_url\<close> is the same function, line for line, in all three source files.
\<close>

definition async_scheme :: string where
  "async_scheme = ''postgresql+asyncpg://''"

definition sync_scheme :: string where
  "sync_scheme = ''postgresql://''"

definition convert_database_url :: "string \<Rightarrow> exn + string" where
  "convert_database_url database_url =
     (if startswith database_url async_scheme
      then Inr (replace database_url async_scheme sync_scheme)
      else if startswith database_url sync_scheme
      then Inr database_url
      else Inl (ValueError (''Unsupported database URL format: '' @ database_url)))"

section \<open>The world the stages run in\<close>

type_synonym timestamp = nat

text \<open>Rows of the two tables. A nullable column is an \<open>option\<close>.\<close>

record volunteer =
  v_id :: string
  v_first_name :: "string option"
  v_last_name :: "string option"
  v_username :: "string option"
  v_phone_number :: "string option"
  v_phone_verified :: bool
  v_created_at :: timestamp
  v_updated_at :: timestamp

record submission =
  s_id :: string
  volunteer_id :: string
  telegram_file_id :: string
  status :: string
  video_platform_url :: "string option"
  decline_reason :: "string option"
  notification_sent :: "bool option"
  notification_sent_at :: "timestamp option"
  s_created_at :: timestamp
  s_updated_at :: timestamp

text \<open>\<^verbatim>\<open>os.environ.get\<close> of the six variables the stages read.\<close>

record environ =
  DATABASE_URL :: "string option"
  TELEGRAM_BOT_TOKEN :: "string option"
  S3_BUCKET_NAME :: "string option"
  API_VIDEO_KEY :: "string option"
  VIDEO_PROCESSOR_FUNCTION_NAME :: "string option"
  RESPONSE_HANDLER_FUNCTION_NAME :: "string option"

text \<open>
  What an HTTP call gives back: \<open>HttpError\<close> is a \<^verbatim>\<open>requests.exceptions.RequestException\<close>
  (no connection, timeout, or the \<^verbatim>\<open>HTTPError\<close> of \<^verbatim>\<open>raise_for_status\<close>), \<open>HttpOk\<close> the
  decoded JSON body (or the raw content of a download).
\<close>

datatype 'a http = HttpError string | HttpOk 'a

text \<open>The fields the code reads of each JSON answer; an absent key is \<open>None\<close>.\<close>

record send_json =
  sj_ok :: bool
  sj_result :: "int option option"
  sj_description :: "string option"

record getfile_json =
  gf_ok :: bool
  gf_repr :: string
  gf_file_path :: "string option option"

record create_json =
  cj_videoId :: "string option"
  cj_repr :: string

record upload_json =
  uj_player :: "string option"

text \<open>
  The answers of the external collaborators during one invocation. Each HTTP endpoint
  and each operation of the object store is called at most once per invocation, so one
  answer each is enough; \<open>uuid4\<close> is the generator of identifiers.
\<close>

record services =
  tg_sendMessage :: "send_json http"
  tg_getFile :: "getfile_json http"
  tg_download :: "nat list http"
  api_create :: "create_json http"
  api_upload :: "upload_json http"
  s3_download_error :: "string option"
  s3_put_error :: "string option"
  s3_delete_error :: "string option"
  uuid4 :: "nat \<Rightarrow> string"

text \<open>
  One answer of the database per connection that is opened: \<open>DbOk\<close>, everything run on
  the connection succeeds; \<open>DbError m\<close>, the connection or a statement fails with the
  driver's message \<open>m\<close> before anything is committed.
\<close>

datatype db_outcome = DbOk | DbError string

text \<open>The texts sent to the chat, by template and interpolated values.\<close>

datatype template =
    RegistrationRequestText string
  | RegistrationSuccessText string
  | RegistrationErrorText
  | HelpText string
  | SuccessText string timestamp string "string option"
  | ErrorText string string

datatype markup = RequestContactKeyboard | RemoveKeyboard | NoMarkup

record publish_event =
  pe_submission_id :: "string option"
  pe_volunteer_id :: "string option"
  pe_s3_key :: "string option"
  pe_video_title :: "string option"

record notify_event =
  ne_submission_id :: "string option"
  ne_volunteer_id :: "string option"
  ne_status :: "string option"
  ne_message :: "string option"

datatype payload = PublishPayload publish_event | NotifyPayload notify_event

text \<open>The requests a stage issues to the collaborators other than the database.\<close>

datatype request =
    TelegramSendMessage string template markup
  | TelegramGetFile string
  | TelegramDownloadFile string
  | S3PutObject string
  | S3DownloadFile string
  | S3DeleteObject string
  | ApiVideoCreate string
  | ApiVideoUploadSource string
  | LambdaInvoke string payload

record world =
  environ :: environ
  services :: services
  db_script :: "db_outcome list"
  volunteers :: "volunteer list"
  video_submissions :: "submission list"
  s3_objects :: "string \<rightharpoonup> nat list"
  trace :: "request list"
  clock :: timestamp
  uuid_count :: nat

text \<open>\<^verbatim>\<open>datetime.utcnow()\<close>: the time of the invocation.\<close>

definition utcnow :: "world \<Rightarrow> timestamp" where
  "utcnow w = clock w"

definition issue :: "request \<Rightarrow> world \<Rightarrow> world" where
  "issue r w = w\<lparr>trace := trace w @ [r]\<rparr>"

text \<open>
  \<^verbatim>\<open>psycopg2.connect(url)\<close> and the statements run on the connection: the next answer of
  the script; an exhausted script answers normally.
\<close>

definition psycopg2_connect :: "world \<Rightarrow> (exn + unit) \<times> world" where
  "psycopg2_connect w =
     (case db_script w of
        [] \<Rightarrow> (Inr (), w)
      | DbOk # rest \<Rightarrow> (Inr (), w\<lparr>db_script := rest\<rparr>)
      | DbError m # rest \<Rightarrow> (Inl (DatabaseError m), w\<lparr>db_script := rest\<rparr>))"

text \<open>
  \<^verbatim>\<open>convert_database_url(os.environ.get('DATABASE_URL'))\<close> followed by the connection;
  on \<^verbatim>\<open>None\<close> the call of \<^verbatim>\<open>startswith\<close> raises \<^verbatim>\<open>AttributeError\<close>.
\<close>

definition connect_env :: "world \<Rightarrow> (exn + unit) \<times> world" where
  "connect_env w =
     (case DATABASE_URL (environ w) of
        None \<Rightarrow> (Inl (AttributeError
                  (quoted ''NoneType'' @ '' object has no attribute '' @
                   quoted ''startswith'')), w)
      | Some database_url \<Rightarrow>
          (case convert_database_url database_url of
             Inl e \<Rightarrow> (Inl e, w)
           | Inr psycopg2_url \<Rightarrow> psycopg2_connect w))"

section \<open>The publish stage: \<^verbatim>\<open>lambda_video_processor\<close>\<close>

text \<open>
  The rows of \<^verbatim>\<open>video_submissions vs JOIN volunteers v ON vs.volunteer_id = v.id\<close>, in
  table order; \<^verbatim>\<open>fetchone\<close> takes the first row of a result.
\<close>

definition joined :: "world \<Rightarrow> (submission \<times> volunteer) list" where
  "joined w =
     concat (map (\<lambda>vs. map (\<lambda>v. (vs, v)) (filter (\<lambda>v. volunteer_id vs = v_id v) (volunteers w)))
       (video_submissions w))"

definition get_submission_data ::
  "world \<Rightarrow> string \<Rightarrow> (exn + (submission \<times> volunteer) option) \<times> world" where
  "get_submission_data w submission_id =
     (if \<not> truthy (DATABASE_URL (environ w))
      then (Inl (Exception ''DATABASE_URL environment variable not set''), w)
      else case connect_env w of
             (Inl e, w1) \<Rightarrow> (Inl e, w1)
           | (Inr _, w1) \<Rightarrow> (Inr (find (\<lambda>(vs, v). s_id vs = submission_id) (joined w1)), w1))"

text \<open>
  \<^verbatim>\<open>s3_client.download_file\<close> and the size check, the body of the \<^verbatim>\<open>try\<close> of
  \<^verbatim>\<open>download_video_from_s3\<close>. The temporary file is its content.
\<close>

definition s3_download_file :: "world \<Rightarrow> string \<Rightarrow> exn + nat list" where
  "s3_download_file w s3_key =
     (case s3_download_error (services w) of
        Some m \<Rightarrow> Inl (ClientError m)
      | None \<Rightarrow>
          (case s3_objects w s3_key of
             None \<Rightarrow> Inl (ClientError
               ''An error occurred (404) when calling the HeadObject operation: Not Found'')
           | Some content \<Rightarrow>
               if length content = 0 then Inl (Exception ''Downloaded file is empty'')
               else Inr content))"

definition download_video_from_s3 :: "world \<Rightarrow> string \<Rightarrow> (exn + nat list) \<times> world" where
  "download_video_from_s3 w s3_key =
     (if \<not> truthy (S3_BUCKET_NAME (environ w))
      then (Inl (Exception ''S3_BUCKET_NAME environment variable not set''), w)
      else let w1 = issue (S3DownloadFile s3_key) w in
        case s3_download_file w1 s3_key of
          Inl e \<Rightarrow> (Inl (Exception (''Failed to download from S3: '' @ str_exn e)), w1)
        | Inr content \<Rightarrow> (Inr content, w1))"

text \<open>The body of the \<^verbatim>\<open>try\<close> of \<^verbatim>\<open>upload_to_api_video\<close>: create the container, then upload.\<close>

definition upload_to_api_video_try ::
  "world \<Rightarrow> nat list \<Rightarrow> string \<Rightarrow> (exn + string) \<times> world" where
  "upload_to_api_video_try w file_content video_title =
     (let w1 = issue (ApiVideoCreate video_title) w in
      case api_create (services w1) of
        HttpError m \<Rightarrow> (Inl (RequestException m), w1)
      | HttpOk video_data \<Rightarrow>
          (case cj_videoId video_data of
             None \<Rightarrow> (Inl (Exception (''Failed to get videoId from response: '' @
                         cj_repr video_data)), w1)
           | Some video_id \<Rightarrow>
               if video_id = []
               then (Inl (Exception (''Failed to get videoId from response: '' @
                         cj_repr video_data)), w1)
               else let w2 = issue (ApiVideoUploadSource video_id) w1 in
                 case api_upload (services w2) of
                   HttpError m \<Rightarrow> (Inl (RequestException m), w2)
                 | HttpOk upload_data \<Rightarrow>
                     (Inr (if truthy (uj_player upload_data) then fmt (uj_player upload_data)
                           else ''https://embed.api.video/vod/'' @ video_id), w2)))"

definition upload_to_api_video ::
  "world \<Rightarrow> nat list \<Rightarrow> string \<Rightarrow> (exn + string) \<times> world" where
  "upload_to_api_video w file_content video_title =
     (if \<not> truthy (API_VIDEO_KEY (environ w))
      then (Inl (Exception ''API_VIDEO_KEY environment variable not set''), w)
      else case upload_to_api_video_try w file_content video_title of
             (Inl (RequestException m), w1) \<Rightarrow>
               (Inl (Exception (''api.video HTTP upload failed: '' @ m)), w1)
           | (Inl e, w1) \<Rightarrow>
               (Inl (Exception (''api.video upload failed: '' @ str_exn e)), w1)
           | (Inr player_url, w1) \<Rightarrow> (Inr player_url, w1))"

text \<open>
  The conditional \<^verbatim>\<open>UPDATE ... WHERE id = %s AND volunteer_id = %s RETURNING ...\<close>; with no
  row returned the function raises before the commit.
\<close>

definition publish_row :: "string \<Rightarrow> timestamp \<Rightarrow> submission \<Rightarrow> submission" where
  "publish_row video_url now vs =
     vs\<lparr>video_platform_url := Some video_url, status := ''PENDING_REVIEW'', s_updated_at := now\<rparr>"

definition update_submission_with_video_url ::
  "world \<Rightarrow> string \<Rightarrow> string \<Rightarrow> string \<Rightarrow> (exn + submission) \<times> world" where
  "update_submission_with_video_url w submission_id video_url volunteer_id' =
     (case connect_env w of
        (Inl e, w1) \<Rightarrow> (Inl e, w1)
      | (Inr _, w1) \<Rightarrow>
          (case find (\<lambda>vs. s_id vs = submission_id \<and> volunteer_id vs = volunteer_id')
                  (video_submissions w1) of
             None \<Rightarrow> (Inl (Exception (''Failed to update submission '' @ submission_id @
                         '' - record not found or volunteer mismatch'')), w1)
           | Some vs \<Rightarrow>
               (Inr (publish_row video_url (utcnow w1) vs),
                w1\<lparr>video_submissions :=
                  map (\<lambda>vs. if s_id vs = submission_id \<and> volunteer_id vs = volunteer_id'
                            then publish_row video_url (utcnow w1) vs else vs)
                    (video_submissions w1)\<rparr>)))"

text \<open>
  \<^verbatim>\<open>UPDATE ... SET status, decline_reason, updated_at WHERE id = %s\<close>; every exception is
  caught and logged.
\<close>

definition status_row :: "string \<Rightarrow> string option \<Rightarrow> timestamp \<Rightarrow> submission \<Rightarrow> submission" where
  "status_row st reason now vs = vs\<lparr>status := st, decline_reason := reason, s_updated_at := now\<rparr>"

definition update_submission_status ::
  "world \<Rightarrow> string \<Rightarrow> string \<Rightarrow> string option \<Rightarrow> world" where
  "update_submission_status w submission_id st reason =
     (case connect_env w of
        (Inl e, w1) \<Rightarrow> w1
      | (Inr _, w1) \<Rightarrow>
          w1\<lparr>video_submissions :=
            map (\<lambda>vs. if s_id vs = submission_id then status_row st reason (utcnow w1) vs else vs)
              (video_submissions w1)\<rparr>)"

definition cleanup_s3_file :: "world \<Rightarrow> string \<Rightarrow> world" where
  "cleanup_s3_file w s3_key =
     (if truthy (S3_BUCKET_NAME (environ w))
      then let w1 = issue (S3DeleteObject s3_key) w in
        (case s3_delete_error (services w1) of
           Some m \<Rightarrow> w1
         | None \<Rightarrow> w1\<lparr>s3_objects := (s3_objects w1)(s3_key := None)\<rparr>)
      else w)"

text \<open>
  The asynchronous invocation of the notification stage. A failure of the call is caught
  and logged, so the request that was issued is all the stage leaves behind.
\<close>

definition trigger_response_handler ::
  "world \<Rightarrow> string \<Rightarrow> string \<Rightarrow> string \<Rightarrow> string \<Rightarrow> world" where
  "trigger_response_handler w submission_id volunteer_id' st message =
     (case RESPONSE_HANDLER_FUNCTION_NAME (environ w) of
        None \<Rightarrow> w
      | Some function_name \<Rightarrow>
          if function_name = [] then w
          else issue (LambdaInvoke function_name (NotifyPayload
                 \<lparr>ne_submission_id = Some submission_id, ne_volunteer_id = Some volunteer_id',
                  ne_status = Some st, ne_message = Some message\<rparr>)) w)"

record publish_result =
  pr_submission_id :: string
  pr_volunteer_id :: string
  pr_api_video_url :: string
  pr_status :: string
  pr_message :: string

definition success_message :: string where
  "success_message = ''Your video has been processed and is now under review by our team!''"

definition failure_message :: string where
  "failure_message = ''Sorry, there was an error processing your video. Please try again.''"

text \<open>The body of the \<^verbatim>\<open>try\<close> of \<^verbatim>\<open>process_video_submission\<close>, steps 1 to 7.\<close>

definition process_video_submission_try ::
  "world \<Rightarrow> string \<Rightarrow> string \<Rightarrow> string \<Rightarrow> string \<Rightarrow> (exn + publish_result) \<times> world" where
  "process_video_submission_try w submission_id volunteer_id' s3_key video_title =
     (case get_submission_data w submission_id of
        (Inl e, w1) \<Rightarrow> (Inl e, w1)
      | (Inr None, w1) \<Rightarrow>
          (Inl (Exception (''Submission '' @ submission_id @ '' not found in database'')), w1)
      | (Inr (Some (submission_data, v)), w1) \<Rightarrow>
          if volunteer_id submission_data \<noteq> volunteer_id'
          then (Inl (Exception (''Data mismatch: Expected volunteer '' @ volunteer_id' @
                  '', got '' @ volunteer_id submission_data)), w1)
          else
            (case download_video_from_s3 w1 s3_key of
               (Inl e, w2) \<Rightarrow> (Inl e, w2)
             | (Inr temp_file, w2) \<Rightarrow>
                 (case upload_to_api_video w2 temp_file video_title of
                    (Inl e, w3) \<Rightarrow> (Inl e, w3)
                  | (Inr api_video_url, w3) \<Rightarrow>
                      (case update_submission_with_video_url w3 submission_id api_video_url
                              volunteer_id' of
                         (Inl e, w4) \<Rightarrow> (Inl e, w4)
                       | (Inr update_result, w4) \<Rightarrow>
                           (let w5 = cleanup_s3_file w4 s3_key;
                                w6 = trigger_response_handler w5 submission_id volunteer_id'
                                       ''success'' success_message
                            in (Inr \<lparr>pr_submission_id = submission_id,
                                     pr_volunteer_id = volunteer_id',
                                     pr_api_video_url = api_video_url,
                                     pr_status = ''completed'',
                                     pr_message =
                                       ''Video successfully processed and uploaded to api.video''\<rparr>,
                                w6))))))"

text \<open>
  \<^verbatim>\<open>process_video_submission\<close>: on an exception of the body the \<^verbatim>\<open>except\<close> clause writes
  \<^verbatim>\<open>DECLINED\<close>, triggers the notification stage with \<^verbatim>\<open>'error'\<close> and re-raises.
\<close>

definition process_video_submission ::
  "world \<Rightarrow> string \<Rightarrow> string \<Rightarrow> string \<Rightarrow> string \<Rightarrow> (exn + publish_result) \<times> world" where
  "process_video_submission w submission_id volunteer_id' s3_key video_title =
     (case process_video_submission_try w submission_id volunteer_id' s3_key video_title of
        (Inr result, w1) \<Rightarrow> (Inr result, w1)
      | (Inl e, w1) \<Rightarrow>
          (let w2 = update_submission_status w1 submission_id ''DECLINED'' (Some (str_exn e));
               w3 = trigger_response_handler w2 submission_id volunteer_id'
                      ''error'' failure_message
           in (Inl e, w3)))"

text \<open>
  What an entry point returns: status code 200 with a result, or 500 with the message
  of the exception and the submission identifier.
\<close>

datatype 'r response = Response200 'r | Response500 string string

fun statusCode :: "'r response \<Rightarrow> nat" where
  "statusCode (Response200 r) = 200"
| "statusCode (Response500 m s) = 500"

text \<open>The body of the \<^verbatim>\<open>try\<close> of the publish stage's \<^verbatim>\<open>lambda_handler\<close>.\<close>

definition video_processor_try ::
  "world \<Rightarrow> publish_event \<Rightarrow> (exn + publish_result) \<times> world" where
  "video_processor_try w event =
     (case pe_submission_id event of
        None \<Rightarrow> (Inl (KeyError ''submission_id''), w)
      | Some submission_id \<Rightarrow>
          (case pe_volunteer_id event of
             None \<Rightarrow> (Inl (KeyError ''volunteer_id''), w)
           | Some volunteer_id' \<Rightarrow>
               (case pe_s3_key event of
                  None \<Rightarrow> (Inl (KeyError ''s3_key''), w)
                | Some s3_key \<Rightarrow>
                    process_video_submission w submission_id volunteer_id' s3_key
                      (case pe_video_title event of
                         None \<Rightarrow> ''Video from user '' @ volunteer_id'
                       | Some video_title \<Rightarrow> video_title))))"

definition video_processor_lambda_handler ::
  "world \<Rightarrow> publish_event \<Rightarrow> publish_result response \<times> world" where
  "video_processor_lambda_handler w event =
     (case video_processor_try w event of
        (Inr result, w1) \<Rightarrow> (Response200 result, w1)
      | (Inl e, w1) \<Rightarrow>
          (case pe_submission_id event of
             Some submission_id \<Rightarrow>
               (Response500 (str_exn e) submission_id,
                update_submission_status w1 submission_id ''DECLINED''
                  (Some (''Processing failed: '' @ str_exn e)))
           | None \<Rightarrow> (Response500 (str_exn e) ''unknown'', w1)))"

section \<open>The notification stage: \<^verbatim>\<open>lambda_response_handler\<close>\<close>

record send_result =
  sent :: bool
  message_id :: "int option"
  error :: "string option"
  sr_chat_id :: string
  sr_status :: string

text \<open>Every exception of \<^verbatim>\<open>get_submission_details\<close> is caught: the details are then empty.\<close>

definition get_submission_details ::
  "world \<Rightarrow> string \<Rightarrow> (submission \<times> volunteer) option \<times> world" where
  "get_submission_details w submission_id =
     (if \<not> truthy (DATABASE_URL (environ w)) then (None, w)
      else case connect_env w of
             (Inl e, w1) \<Rightarrow> (None, w1)
           | (Inr _, w1) \<Rightarrow> (find (\<lambda>(vs, v). s_id vs = submission_id) (joined w1), w1))"

definition format_success_message ::
  "timestamp \<Rightarrow> (submission \<times> volunteer) option \<Rightarrow> string \<Rightarrow> template" where
  "format_success_message now submission_details message =
     (case submission_details of
        None \<Rightarrow> SuccessText ''there'' now message None
      | Some (vs, v) \<Rightarrow>
          SuccessText (fmt (v_first_name v)) (s_created_at vs) message
            (if truthy (video_platform_url vs) then video_platform_url vs else None))"

definition format_error_message ::
  "(submission \<times> volunteer) option \<Rightarrow> string \<Rightarrow> template" where
  "format_error_message submission_details message =
     (case submission_details of
        None \<Rightarrow> ErrorText ''there'' message
      | Some (vs, v) \<Rightarrow> ErrorText (fmt (v_first_name v)) message)"

text \<open>The body of the \<^verbatim>\<open>try\<close> of \<^verbatim>\<open>send_telegram_response\<close>.\<close>

definition send_telegram_response_try ::
  "world \<Rightarrow> string \<Rightarrow> string \<Rightarrow> string \<Rightarrow> string \<Rightarrow> (exn + send_result) \<times> world" where
  "send_telegram_response_try w volunteer_id' submission_id st message =
     (if \<not> truthy (TELEGRAM_BOT_TOKEN (environ w))
      then (Inl (Exception ''TELEGRAM_BOT_TOKEN environment variable not set''), w)
      else
        (case get_submission_details w submission_id of
           (submission_details, w1) \<Rightarrow>
             (let formatted_message =
                    (if st = ''success''
                     then format_success_message (utcnow w1) submission_details message
                     else format_error_message submission_details message);
                  w2 = issue (TelegramSendMessage volunteer_id' formatted_message NoMarkup) w1
              in case tg_sendMessage (services w2) of
                   HttpError m \<Rightarrow> (Inl (RequestException m), w2)
                 | HttpOk response_data \<Rightarrow>
                     if sj_ok response_data
                     then (case sj_result response_data of
                             None \<Rightarrow> (Inl (KeyError ''result''), w2)
                           | Some None \<Rightarrow> (Inl (KeyError ''message_id''), w2)
                           | Some (Some mid) \<Rightarrow>
                               (Inr \<lparr>sent = True, message_id = Some mid, error = None,
                                     sr_chat_id = volunteer_id', sr_status = st\<rparr>, w2))
                     else (Inr \<lparr>sent = False, message_id = None,
                                 error = Some (case sj_description response_data of
                                                 None \<Rightarrow> ''Unknown error''
                                               | Some d \<Rightarrow> d),
                                 sr_chat_id = volunteer_id', sr_status = st\<rparr>, w2))))"

text \<open>
  \<^verbatim>\<open>send_telegram_response\<close>: the two \<^verbatim>\<open>except\<close> clauses turn every exception into a
  result with \<^verbatim>\<open>sent: False\<close>.
\<close>

definition send_telegram_response ::
  "world \<Rightarrow> string \<Rightarrow> string \<Rightarrow> string \<Rightarrow> string \<Rightarrow> send_result \<times> world" where
  "send_telegram_response w volunteer_id' submission_id st message =
     (case send_telegram_response_try w volunteer_id' submission_id st message of
        (Inr result, w1) \<Rightarrow> (result, w1)
      | (Inl (RequestException m), w1) \<Rightarrow>
          (\<lparr>sent = False, message_id = None, error = Some (''Network error: '' @ m),
            sr_chat_id = volunteer_id', sr_status = st\<rparr>, w1)
      | (Inl e, w1) \<Rightarrow>
          (\<lparr>sent = False, message_id = None, error = Some (str_exn e),
            sr_chat_id = volunteer_id', sr_status = st\<rparr>, w1))"

definition notification_row :: "bool \<Rightarrow> timestamp \<Rightarrow> submission \<Rightarrow> submission" where
  "notification_row notification_sent' now vs =
     vs\<lparr>notification_sent := Some notification_sent',
        notification_sent_at := (if notification_sent' then Some now else None),
        s_updated_at := now\<rparr>"

definition update_notification_status :: "world \<Rightarrow> string \<Rightarrow> bool \<Rightarrow> world" where
  "update_notification_status w submission_id notification_sent' =
     (if \<not> truthy (DATABASE_URL (environ w)) then w
      else case connect_env w of
             (Inl e, w1) \<Rightarrow> w1
           | (Inr _, w1) \<Rightarrow>
               w1\<lparr>video_submissions :=
                 map (\<lambda>vs. if s_id vs = submission_id
                           then notification_row notification_sent' (utcnow w1) vs else vs)
                   (video_submissions w1)\<rparr>)"

text \<open>The body of the \<^verbatim>\<open>try\<close> of the notification stage's \<^verbatim>\<open>lambda_handler\<close>.\<close>

definition response_handler_try ::
  "world \<Rightarrow> notify_event \<Rightarrow> (exn + send_result) \<times> world" where
  "response_handler_try w event =
     (case ne_submission_id event of
        None \<Rightarrow> (Inl (KeyError ''submission_id''), w)
      | Some submission_id \<Rightarrow>
          (case ne_volunteer_id event of
             None \<Rightarrow> (Inl (KeyError ''volunteer_id''), w)
           | Some volunteer_id' \<Rightarrow>
               (case ne_status event of
                  None \<Rightarrow> (Inl (KeyError ''status''), w)
                | Some st \<Rightarrow>
                    (case ne_message event of
                       None \<Rightarrow> (Inl (KeyError ''message''), w)
                     | Some message \<Rightarrow>
                         (case send_telegram_response w volunteer_id' submission_id st message of
                            (result, w1) \<Rightarrow>
                              (Inr result,
                               update_notification_status w1 submission_id (sent result)))))))"

definition response_lambda_handler ::
  "world \<Rightarrow> notify_event \<Rightarrow> send_result response \<times> world" where
  "response_lambda_handler w event =
     (case response_handler_try w event of
        (Inr result, w1) \<Rightarrow> (Response200 result, w1)
      | (Inl e, w1) \<Rightarrow>
          (Response500 (str_exn e)
             (case ne_submission_id event of
                None \<Rightarrow> ''unknown''
              | Some submission_id \<Rightarrow> submission_id), w1))"

section \<open>The intake stage: \<^verbatim>\<open>telegram-webhook-handler\<close>\<close>

text \<open>
  The inbound chat event; an absent optional key is \<open>None\<close>. The chat with its id (here
  \<^verbatim>\<open>str(chat['id'])\<close>) and the file identifier of a video or document are the keys the
  code reads by subscript; the event format has them always.
\<close>

record tg_chat =
  chat_id :: string
  chat_first_name :: "string option"
  chat_last_name :: "string option"
  chat_username :: "string option"

record tg_from =
  from_first_name :: "string option"
  from_last_name :: "string option"
  from_username :: "string option"

record tg_contact =
  contact_phone_number :: "string option"
  contact_user_id :: "string option"

record tg_video =
  video_file_id :: string

record tg_document =
  document_file_id :: string
  mime_type :: "string option"

record tg_message =
  chat :: tg_chat
  from_user :: "tg_from option"
  contact :: "tg_contact option"
  video :: "tg_video option"
  document :: "tg_document option"
  text_of :: "string option"

datatype intake_result =
    NoMessage
  | RegistrationCompleted "string option" string
  | RegistrationFailed
  | RegistrationRequired string string
  | Duplicate string
  | Success string string bool "string option" string string
  | HelpSent
  | UnhandledMessage

text \<open>\<^verbatim>\<open>message.get('from', {}).get(key)\<close> and \<^verbatim>\<open>user_data.get('first_name', 'there')\<close>.\<close>

definition user_get :: "(tg_from \<Rightarrow> string option) \<Rightarrow> tg_message \<Rightarrow> string option" where
  "user_get field message = (case from_user message of None \<Rightarrow> None | Some u \<Rightarrow> field u)"

definition user_first_name :: "tg_message \<Rightarrow> string" where
  "user_first_name message =
     (case user_get from_first_name message of None \<Rightarrow> ''there'' | Some n \<Rightarrow> n)"

text \<open>Every exception of \<^verbatim>\<open>check_volunteer_exists\<close> is caught and becomes \<^verbatim>\<open>None\<close>.\<close>

definition check_volunteer_exists :: "world \<Rightarrow> string \<Rightarrow> volunteer option \<times> world" where
  "check_volunteer_exists w chat_id' =
     (if \<not> truthy (DATABASE_URL (environ w)) then (None, w)
      else case connect_env w of
             (Inl e, w1) \<Rightarrow> (None, w1)
           | (Inr _, w1) \<Rightarrow> (find (\<lambda>v. v_id v = chat_id') (volunteers w1), w1))"

text \<open>
  The senders return silently without a bot token; the answer of the chat API is not
  read and an exception of the call is caught.
\<close>

definition send_registration_request :: "world \<Rightarrow> string \<Rightarrow> string \<Rightarrow> world" where
  "send_registration_request w chat_id' first_name =
     (if \<not> truthy (TELEGRAM_BOT_TOKEN (environ w)) then w
      else issue (TelegramSendMessage chat_id' (RegistrationRequestText first_name)
                    RequestContactKeyboard) w)"

definition send_simple_message :: "world \<Rightarrow> string \<Rightarrow> template \<Rightarrow> world" where
  "send_simple_message w chat_id' txt =
     (if \<not> truthy (TELEGRAM_BOT_TOKEN (environ w)) then w
      else issue (TelegramSendMessage chat_id' txt RemoveKeyboard) w)"

definition send_registration_success_message :: "world \<Rightarrow> string \<Rightarrow> string \<Rightarrow> world" where
  "send_registration_success_message w chat_id' first_name =
     send_simple_message w chat_id' (RegistrationSuccessText first_name)"

definition send_registration_error_message :: "world \<Rightarrow> string \<Rightarrow> world" where
  "send_registration_error_message w chat_id' =
     send_simple_message w chat_id' RegistrationErrorText"

definition send_help_message_to_registered_user :: "world \<Rightarrow> string \<Rightarrow> string \<Rightarrow> world" where
  "send_help_message_to_registered_user w chat_id' first_name =
     send_simple_message w chat_id' (HelpText first_name)"

text \<open>\<^verbatim>\<open>INSERT INTO volunteers ... ON CONFLICT (id) DO UPDATE SET ...\<close>.\<close>

definition upsert_volunteer :: "volunteer \<Rightarrow> volunteer list \<Rightarrow> volunteer list" where
  "upsert_volunteer new vs =
     (if find (\<lambda>v. v_id v = v_id new) vs = None then vs @ [new]
      else map (\<lambda>v. if v_id v = v_id new
                    then v\<lparr>v_phone_number := v_phone_number new,
                           v_phone_verified := v_phone_verified new,
                           v_updated_at := v_updated_at new\<rparr>
                    else v) vs)"

definition complete_user_registration ::
  "world \<Rightarrow> string \<Rightarrow> string option \<Rightarrow> tg_message \<Rightarrow> bool \<times> world" where
  "complete_user_registration w chat_id' phone_number message =
     (case connect_env w of
        (Inl e, w1) \<Rightarrow> (False, w1)
      | (Inr _, w1) \<Rightarrow>
          (True,
           w1\<lparr>volunteers := upsert_volunteer
             \<lparr>v_id = chat_id',
              v_first_name = py_or (chat_first_name (chat message))
                               (user_get from_first_name message),
              v_last_name = py_or (chat_last_name (chat message))
                              (user_get from_last_name message),
              v_username = py_or (chat_username (chat message))
                             (user_get from_username message),
              v_phone_number = phone_number,
              v_phone_verified = True,
              v_created_at = utcnow w1,
              v_updated_at = utcnow w1\<rparr> (volunteers w1)\<rparr>))"

text \<open>
  \<^verbatim>\<open>file_path.split('.')[-1] if '.' in file_path else 'mp4'\<close>: what follows the last dot.
\<close>

definition file_extension :: "string \<Rightarrow> string" where
  "file_extension file_path =
     (if CHR ''.'' \<in> set file_path
      then rev (takeWhile (\<lambda>c. c \<noteq> CHR ''.'') (rev file_path))
      else ''mp4'')"

definition download_video_to_s3 :: "world \<Rightarrow> string \<Rightarrow> string \<Rightarrow> (exn + string) \<times> world" where
  "download_video_to_s3 w file_id submission_id =
     (if \<not> truthy (TELEGRAM_BOT_TOKEN (environ w)) \<or> \<not> truthy (S3_BUCKET_NAME (environ w))
      then (Inl (Exception ''Missing environment variables''), w)
      else let w1 = issue (TelegramGetFile file_id) w in
        case tg_getFile (services w1) of
          HttpError m \<Rightarrow> (Inl (RequestException m), w1)
        | HttpOk file_data \<Rightarrow>
            if \<not> gf_ok file_data
            then (Inl (Exception (''Telegram API error: '' @ gf_repr file_data)), w1)
            else
              (case gf_file_path file_data of
                 None \<Rightarrow> (Inl (KeyError ''result''), w1)
               | Some None \<Rightarrow> (Inl (KeyError ''file_path''), w1)
               | Some (Some file_path) \<Rightarrow>
                   (let w2 = issue (TelegramDownloadFile file_path) w1 in
                    case tg_download (services w2) of
                      HttpError m \<Rightarrow> (Inl (RequestException m), w2)
                    | HttpOk video_content \<Rightarrow>
                        (let s3_key = ''temp_videos/'' @ submission_id @ ''.'' @
                                        file_extension file_path;
                             w3 = issue (S3PutObject s3_key) w2
                         in case s3_put_error (services w3) of
                              Some m \<Rightarrow> (Inl (ClientError m), w3)
                            | None \<Rightarrow>
                                (Inr s3_key,
                                 w3\<lparr>s3_objects := (s3_objects w3)(s3_key \<mapsto> video_content)\<rparr>)))))"

definition trigger_video_processor ::
  "world \<Rightarrow> string \<Rightarrow> string \<Rightarrow> string \<Rightarrow> tg_chat \<Rightarrow> world" where
  "trigger_video_processor w submission_id volunteer_id' s3_key chat_data =
     (case VIDEO_PROCESSOR_FUNCTION_NAME (environ w) of
        None \<Rightarrow> w
      | Some function_name \<Rightarrow>
          if function_name = [] then w
          else issue (LambdaInvoke function_name (PublishPayload
                 \<lparr>pe_submission_id = Some submission_id, pe_volunteer_id = Some volunteer_id',
                  pe_s3_key = Some s3_key,
                  pe_video_title = Some (''Submission from '' @
                    fmt (py_or (chat_username chat_data) (chat_first_name chat_data)))\<rparr>)) w)"

text \<open>The row of \<^verbatim>\<open>INSERT INTO video_submissions ... 'PROCESSING'\<close>; the other columns are null.\<close>

definition new_submission :: "string \<Rightarrow> string \<Rightarrow> string \<Rightarrow> timestamp \<Rightarrow> submission" where
  "new_submission submission_uuid chat_id' file_id now =
     \<lparr>s_id = submission_uuid, volunteer_id = chat_id', telegram_file_id = file_id,
      status = ''PROCESSING'', video_platform_url = None, decline_reason = None,
      notification_sent = None, notification_sent_at = None,
      s_created_at = now, s_updated_at = now\<rparr>"

text \<open>
  \<^verbatim>\<open>process_video_from_registered_user\<close>: the lookup by file identifier, then the insert
  and its commit, then the relay to staging and the trigger of the publish stage. An
  exception after the commit leaves the row.
\<close>

definition process_video_from_registered_user ::
  "world \<Rightarrow> tg_message \<Rightarrow> volunteer \<Rightarrow> string \<Rightarrow> string \<Rightarrow> (exn + intake_result) \<times> world" where
  "process_video_from_registered_user w message volunteer' file_id video_type =
     (case connect_env w of
        (Inl e, w1) \<Rightarrow> (Inl e, w1)
      | (Inr _, w1) \<Rightarrow>
          (case find (\<lambda>vs. telegram_file_id vs = file_id) (video_submissions w1) of
             Some existing \<Rightarrow> (Inr (Duplicate (s_id existing)), w1)
           | None \<Rightarrow>
               (let submission_uuid = uuid4 (services w1) (uuid_count w1);
                    w2 = w1\<lparr>uuid_count := uuid_count w1 + 1,
                            video_submissions := video_submissions w1 @
                              [new_submission submission_uuid (v_id volunteer') file_id
                                 (utcnow w1)]\<rparr>
                in case download_video_to_s3 w2 file_id submission_uuid of
                     (Inl e, w3) \<Rightarrow> (Inl e, w3)
                   | (Inr s3_key, w3) \<Rightarrow>
                       (Inr (Success submission_uuid (v_id volunteer')
                               (v_phone_verified volunteer') (v_phone_number volunteer') s3_key
                               ''Video processing started for registered user''),
                        if truthy (VIDEO_PROCESSOR_FUNCTION_NAME (environ w3))
                        then trigger_video_processor w3 submission_uuid (v_id volunteer')
                               s3_key (chat message)
                        else w3))))"

text \<open>
  The video of a message: a document whose \<^verbatim>\<open>mime_type\<close> contains \<^verbatim>\<open>video\<close>, else the
  \<^verbatim>\<open>video\<close> field; the file identifier and the kind.
\<close>

definition video_of :: "tg_message \<Rightarrow> (string \<times> string) option" where
  "video_of message =
     (case document message of
        Some d \<Rightarrow>
          if contains ''video'' (case mime_type d of None \<Rightarrow> [] | Some m \<Rightarrow> m)
          then Some (document_file_id d, ''document'')
          else (case video message of
                  None \<Rightarrow> None
                | Some v \<Rightarrow> Some (video_file_id v, ''video''))
      | None \<Rightarrow>
          (case video message of
             None \<Rightarrow> None
           | Some v \<Rightarrow> Some (video_file_id v, ''video'')))"

definition process_telegram_update ::
  "world \<Rightarrow> tg_message option \<Rightarrow> (exn + intake_result) \<times> world" where
  "process_telegram_update w update =
     (case update of
        None \<Rightarrow> (Inr NoMessage, w)
      | Some message \<Rightarrow>
          (case contact message of
             Some c \<Rightarrow>
               (let contact_user_id' =
                      (case contact_user_id c of
                         None \<Rightarrow> chat_id (chat message)
                       | Some u \<Rightarrow> u)
                in case complete_user_registration w contact_user_id'
                          (contact_phone_number c) message of
                     (success, w1) \<Rightarrow>
                       if success
                       then (Inr (RegistrationCompleted (contact_phone_number c)
                                    contact_user_id'),
                             send_registration_success_message w1 (chat_id (chat message))
                               (user_first_name message))
                       else (Inr RegistrationFailed,
                             send_registration_error_message w1 (chat_id (chat message))))
           | None \<Rightarrow>
               (case check_volunteer_exists w (chat_id (chat message)) of
                  (None, w1) \<Rightarrow>
                    (Inr (RegistrationRequired (chat_id (chat message))
                            ''Registration request sent to new user''),
                     send_registration_request w1 (chat_id (chat message))
                       (user_first_name message))
                | (Some volunteer', w1) \<Rightarrow>
                    (case video_of message of
                       Some (file_id, video_type) \<Rightarrow>
                         process_video_from_registered_user w1 message volunteer' file_id
                           video_type
                     | None \<Rightarrow>
                         if truthy (text_of message)
                         then (Inr HelpSent,
                               send_help_message_to_registered_user w1 (chat_id (chat message))
                                 (fmt (v_first_name volunteer')))
                         else (Inr UnhandledMessage, w1)))))"

text \<open>
  The intake stage's \<^verbatim>\<open>lambda_handler\<close>, from the decoded update on; its error body
  carries no submission identifier.
\<close>

definition webhook_lambda_handler ::
  "world \<Rightarrow> tg_message option \<Rightarrow> intake_result response \<times> world" where
  "webhook_lambda_handler w update =
     (case process_telegram_update w update of
        (Inr result, w1) \<Rightarrow> (Response200 result, w1)
      | (Inl e, w1) \<Rightarrow> (Response500 (str_exn e) [], w1))"

section \<open>Predicates of the statements\<close>

text \<open>The connection string is one that \<open>convert_database_url\<close> accepts.\<close>

definition url_usable :: "world \<Rightarrow> bool" where
  "url_usable w =
     (case DATABASE_URL (environ w) of
        None \<Rightarrow> False
      | Some u \<Rightarrow> startswith u async_scheme \<or> startswith u sync_scheme)"

text \<open>The next connection to the database succeeds.\<close>

definition db_answers :: "world \<Rightarrow> bool" where
  "db_answers w = (case db_script w of DbError m # rest \<Rightarrow> False | _ \<Rightarrow> True)"

definition db_usable :: "world \<Rightarrow> bool" where
  "db_usable w = (url_usable w \<and> db_answers w)"

text \<open>The world after a connection was opened: one answer of the script is used up.\<close>

definition connected :: "world \<Rightarrow> world" where
  "connected w = w\<lparr>db_script := tl (db_script w)\<rparr>"

text \<open>Two worlds that differ at most in the requests issued and the answers used up.\<close>

definition unchanged :: "world \<Rightarrow> world \<Rightarrow> bool" where
  "unchanged w w' =
     (environ w' = environ w \<and> services w' = services w \<and> volunteers w' = volunteers w \<and>
      video_submissions w' = video_submissions w \<and> s3_objects w' = s3_objects w \<and>
      clock w' = clock w \<and> uuid_count w' = uuid_count w \<and>
      set (db_script w') \<subseteq> set (db_script w))"

text \<open>Every failure of the database driver comes with a message.\<close>

definition driver_messages_given :: "world \<Rightarrow> bool" where
  "driver_messages_given w = (DbError [] \<notin> set (db_script w))"

text \<open>The calls to the external publishing service.\<close>

fun is_publish_request :: "request \<Rightarrow> bool" where
  "is_publish_request (ApiVideoCreate t) = True"
| "is_publish_request (ApiVideoUploadSource v) = True"
| "is_publish_request r = False"

text \<open>The requests of the relay from the chat platform to staging storage.\<close>

fun is_relay_request :: "request \<Rightarrow> bool" where
  "is_relay_request (TelegramGetFile f) = True"
| "is_relay_request (TelegramDownloadFile p) = True"
| "is_relay_request (S3PutObject k) = True"
| "is_relay_request r = False"

text \<open>Terminal consistency of a row of \<^verbatim>\<open>video_submissions\<close>.\<close>

definition terminal_consistent :: "submission \<Rightarrow> bool" where
  "terminal_consistent vs =
     ((status vs = ''PENDING_REVIEW'' \<longrightarrow> truthy (video_platform_url vs)) \<and>
      (status vs = ''DECLINED'' \<longrightarrow> truthy (decline_reason vs)))"

definition terminal_consistent_table :: "world \<Rightarrow> bool" where
  "terminal_consistent_table w = list_all terminal_consistent (video_submissions w)"

text \<open>The timestamp of the notification is there exactly when the flag is true.\<close>

definition notification_consistent :: "submission \<Rightarrow> bool" where
  "notification_consistent vs =
     ((notification_sent_at vs \<noteq> None) = (notification_sent vs = Some True))"

definition notification_consistent_table :: "world \<Rightarrow> bool" where
  "notification_consistent_table w = list_all notification_consistent (video_submissions w)"

text \<open>The number of rows with a given source-platform file identifier.\<close>

definition count_file :: "string \<Rightarrow> world \<Rightarrow> nat" where
  "count_file file_id w =
     length (filter (\<lambda>vs. telegram_file_id vs = file_id) (video_submissions w))"

definition decline_rows :: "string \<Rightarrow> string \<Rightarrow> timestamp \<Rightarrow> submission list \<Rightarrow> submission list" where
  "decline_rows submission_id reason now rows =
     map (\<lambda>vs. if s_id vs = submission_id
               then status_row ''DECLINED'' (Some reason) now vs else vs) rows"

text \<open>The text of the integrity failure of the publish stage.\<close>

definition mismatch_message :: "string \<Rightarrow> string \<Rightarrow> string" where
  "mismatch_message expected stored =
     ''Data mismatch: Expected volunteer '' @ expected @ '', got '' @ stored"

text \<open>The request that triggers the notification stage, when a target is configured.\<close>

definition notify_requests :: "world \<Rightarrow> string \<Rightarrow> string \<Rightarrow> string \<Rightarrow> string \<Rightarrow> request list" where
  "notify_requests w submission_id volunteer_id' st message =
     (if truthy (RESPONSE_HANDLER_FUNCTION_NAME (environ w))
      then [LambdaInvoke (fmt (RESPONSE_HANDLER_FUNCTION_NAME (environ w))) (NotifyPayload
              \<lparr>ne_submission_id = Some submission_id, ne_volunteer_id = Some volunteer_id',
               ne_status = Some st, ne_message = Some message\<rparr>)]
      else [])"

text \<open>The registration prompt, when a bot token is configured.\<close>

definition prompt_requests :: "world \<Rightarrow> tg_message \<Rightarrow> request list" where
  "prompt_requests w m =
     (if truthy (TELEGRAM_BOT_TOKEN (environ w))
      then [TelegramSendMessage (chat_id (chat m)) (RegistrationRequestText (user_first_name m))
              RequestContactKeyboard]
      else [])"

section \<open>A concrete deployment\<close>

definition demo_environ :: environ where
  "demo_environ =
     \<lparr>DATABASE_URL = Some ''postgresql+asyncpg://app@db/videos'',
      TELEGRAM_BOT_TOKEN = Some ''token'',
      S3_BUCKET_NAME = Some ''staging'',
      API_VIDEO_KEY = Some ''key'',
      VIDEO_PROCESSOR_FUNCTION_NAME = Some ''video-processor'',
      RESPONSE_HANDLER_FUNCTION_NAME = Some ''response-handler''\<rparr>"

definition demo_services :: services where
  "demo_services =
     \<lparr>tg_sendMessage = HttpOk \<lparr>sj_ok = True, sj_result = Some (Some 7), sj_description = None\<rparr>,
      tg_getFile = HttpOk \<lparr>gf_ok = True, gf_repr = ''{}'',
                           gf_file_path = Some (Some ''videos/file_1.mp4'')\<rparr>,
      tg_download = HttpOk [1, 2, 3],
      api_create = HttpOk \<lparr>cj_videoId = Some ''vi1'', cj_repr = ''{}''\<rparr>,
      api_upload = HttpOk \<lparr>uj_player = None\<rparr>,
      s3_download_error = None,
      s3_put_error = None,
      s3_delete_error = None,
      uuid4 = (\<lambda>n. ''uuid-'' @ replicate n (CHR ''i''))\<rparr>"

definition alice :: volunteer where
  "alice =
     \<lparr>v_id = ''u1'', v_first_name = Some ''Alice'', v_last_name = None, v_username = None,
      v_phone_number = Some ''+15550100'', v_phone_verified = True,
      v_created_at = 1, v_updated_at = 1\<rparr>"

definition demo_submission :: submission where
  "demo_submission = new_submission ''s1'' ''u1'' ''f1'' 2"

definition demo_world :: world where
  "demo_world =
     \<lparr>environ = demo_environ, services = demo_services, db_script = [],
      volunteers = [alice], video_submissions = [demo_submission],
      s3_objects = [''temp_videos/s1.mp4'' \<mapsto> [1, 2, 3]],
      trace = [], clock = 100, uuid_count = 0\<rparr>"

definition demo_chat :: tg_chat where
  "demo_chat =
     \<lparr>chat_id = ''u1'', chat_first_name = Some ''Alice'', chat_last_name = None,
      chat_username = None\<rparr>"

definition video_message :: "string \<Rightarrow> string \<Rightarrow> tg_message" where
  "video_message chat_id' file_id =
     \<lparr>chat = demo_chat\<lparr>chat_id := chat_id'\<rparr>, from_user = None, contact = None,
      video = Some \<lparr>video_file_id = file_id\<rparr>, document = None, text_of = None\<rparr>"

definition demo_publish_event :: publish_event where
  "demo_publish_event =
     \<lparr>pe_submission_id = Some ''s1'', pe_volunteer_id = Some ''u1'',
      pe_s3_key = Some ''temp_videos/s1.mp4'', pe_video_title = Some ''clip''\<rparr>"

definition demo_notify_event :: notify_event where
  "demo_notify_event =
     \<lparr>ne_submission_id = Some ''s1'', ne_volunteer_id = Some ''u1'',
      ne_status = Some ''success'', ne_message = Some success_message\<rparr>"

text \<open>The deployment without a connection string.\<close>

definition no_database_world :: world where
  "no_database_world = demo_world\<lparr>environ := demo_environ\<lparr>DATABASE_URL := None\<rparr>\<rparr>"

text \<open>The deployment whose staged object is empty.\<close>

definition empty_staged_world :: world where
  "empty_staged_world = demo_world\<lparr>s3_objects := [''temp_videos/s1.mp4'' \<mapsto> []]\<rparr>"

text \<open>The deployment whose publishing service refuses the upload.\<close>

definition upload_failure_world :: world where
  "upload_failure_world =
     demo_world\<lparr>services := demo_services\<lparr>api_upload := HttpError ''503 Server Error''\<rparr>\<rparr>"

text \<open>The deployment without a bot token.\<close>

definition no_token_world :: world where
  "no_token_world = demo_world\<lparr>environ := demo_environ\<lparr>TELEGRAM_BOT_TOKEN := None\<rparr>\<rparr>"

text \<open>The deployment whose database refuses the next connection.\<close>

definition database_down_world :: world where
  "database_down_world = demo_world\<lparr>db_script := [DbError ''connection refused'']\<rparr>"

text \<open>The deployment whose chat API cannot be reached.\<close>

definition telegram_down_world :: world where
  "telegram_down_world =
     demo_world\<lparr>services := demo_services\<lparr>tg_sendMessage := HttpError ''Connection timed out''\<rparr>\<rparr>"

section \<open>Properties\<close>

lemma startswith_append: "startswith (p @ r) p"
  by (induction p) auto

lemma startswith_iff: "startswith s p \<longleftrightarrow> (\<exists>r. s = p @ r)"
proof (induction s p rule: startswith.induct)
  case (1 s)
  then show ?case by simp
next
  case (2 p ps)
  then show ?case by simp
next
  case (3 c cs p ps)
  then show ?case by auto
qed

lemma replace_go_skip: "replace_go old new (length p) (p @ r) = replace_go old new 0 r"
  by (induction p) auto

lemma replace_prefix:
  assumes "old \<noteq> []"
  shows "replace (old @ r) old new = new @ replace r old new"
proof -
  obtain c cs where old: "old = c # cs"
    using assms by (cases old) auto
  have "replace_go old new 0 (c # (cs @ r)) = new @ replace_go old new (length cs) (cs @ r)"
    using startswith_append [of old r] by (simp add: old)
  then show ?thesis
    by (simp add: replace_def old replace_go_skip)
qed

lemma url_usable_truthy: "url_usable w \<Longrightarrow> truthy (DATABASE_URL (environ w))"
  by (auto simp: url_usable_def async_scheme_def sync_scheme_def split: option.splits)

lemma psycopg2_connect_ok: "db_answers w \<Longrightarrow> psycopg2_connect w = (Inr (), connected w)"
  by (cases "db_script w"; cases "hd (db_script w)")
     (auto simp: db_answers_def psycopg2_connect_def connected_def)

lemma psycopg2_connect_fail:
  "\<not> db_answers w \<Longrightarrow>
     \<exists>m. m \<in> DbError -` set (db_script w) \<and>
         psycopg2_connect w = (Inl (DatabaseError m), connected w)"
  by (cases "db_script w"; cases "hd (db_script w)")
     (auto simp: db_answers_def psycopg2_connect_def connected_def)

lemma connect_env_ok: "db_usable w \<Longrightarrow> connect_env w = (Inr (), connected w)"
  by (auto simp: db_usable_def url_usable_def connect_env_def convert_database_url_def
        psycopg2_connect_ok split: option.splits)

lemma connect_env_cases:
  "connect_env w = (Inr (), connected w) \<and> db_usable w \<or>
   (\<exists>e. connect_env w = (Inl e, w) \<and> \<not> url_usable w \<and> str_exn e \<noteq> []) \<or>
   (\<exists>m. connect_env w = (Inl (DatabaseError m), connected w) \<and> url_usable w \<and>
        \<not> db_answers w \<and> DbError m \<in> set (db_script w))"
proof (cases "url_usable w")
  case True
  then show ?thesis
    using psycopg2_connect_ok [of w] psycopg2_connect_fail [of w]
    by (cases "db_answers w")
       (auto simp: db_usable_def url_usable_def connect_env_def convert_database_url_def
          split: option.splits)
next
  case False
  then show ?thesis
    by (auto simp: url_usable_def connect_env_def convert_database_url_def quoted_def
        split: option.splits)
qed

lemma connected_simps [simp]:
  "environ (connected w) = environ w"
  "services (connected w) = services w"
  "volunteers (connected w) = volunteers w"
  "video_submissions (connected w) = video_submissions w"
  "s3_objects (connected w) = s3_objects w"
  "trace (connected w) = trace w"
  "clock (connected w) = clock w"
  "uuid_count (connected w) = uuid_count w"
  "db_script (connected w) = tl (db_script w)"
  by (simp_all add: connected_def)

lemma issue_simps [simp]:
  "environ (issue r w) = environ w"
  "services (issue r w) = services w"
  "volunteers (issue r w) = volunteers w"
  "video_submissions (issue r w) = video_submissions w"
  "s3_objects (issue r w) = s3_objects w"
  "trace (issue r w) = trace w @ [r]"
  "clock (issue r w) = clock w"
  "uuid_count (issue r w) = uuid_count w"
  "db_script (issue r w) = db_script w"
  by (simp_all add: issue_def)

lemma joined_connected [simp]: "joined (connected w) = joined w"
  by (simp add: joined_def)

lemma db_usable_connected_url [simp]: "url_usable (connected w) = url_usable w"
  by (simp add: url_usable_def)

lemma get_submission_data_cases:
  "get_submission_data w sid = (Inr (find (\<lambda>(vs, v). s_id vs = sid) (joined w)), connected w) \<and>
     db_usable w \<or>
   (\<exists>e. get_submission_data w sid = (Inl e, w) \<and> \<not> url_usable w \<and> str_exn e \<noteq> []) \<or>
   (\<exists>m. get_submission_data w sid = (Inl (DatabaseError m), connected w) \<and> url_usable w \<and>
        \<not> db_answers w \<and> DbError m \<in> set (db_script w))"
proof (cases "truthy (DATABASE_URL (environ w))")
  case True
  have j: "joined (connected w) = joined w"
    by (simp add: joined_def)
  consider
      (ok) "connect_env w = (Inr (), connected w)" "db_usable w"
    | (url) e where "connect_env w = (Inl e, w)" "\<not> url_usable w" "str_exn e \<noteq> []"
    | (db) m where "connect_env w = (Inl (DatabaseError m), connected w)" "url_usable w"
        "\<not> db_answers w" "DbError m \<in> set (db_script w)"
    using connect_env_cases [of w] by blast
  then show ?thesis
  proof cases
    case ok
    then show ?thesis
      using True by (simp add: get_submission_data_def j)
  next
    case url
    then show ?thesis
      using True by (simp add: get_submission_data_def)
  next
    case db
    then show ?thesis
      using True by (simp add: get_submission_data_def)
  qed
next
  case False
  then have "\<not> url_usable w"
    using url_usable_truthy by blast
  with False show ?thesis
    by (simp add: get_submission_data_def)
qed

lemma update_submission_status_eq:
  "update_submission_status w sid st reason =
     (if db_usable w
      then (connected w)\<lparr>video_submissions :=
             map (\<lambda>vs. if s_id vs = sid then status_row st reason (clock w) vs else vs)
               (video_submissions w)\<rparr>
      else if url_usable w then connected w else w)"
  using connect_env_cases [of w]
  by (auto simp: update_submission_status_def utcnow_def db_usable_def)

lemma trigger_response_handler_eq:
  "trigger_response_handler w sid vid st msg =
     w\<lparr>trace := trace w @ notify_requests w sid vid st msg\<rparr>"
  by (auto simp: trigger_response_handler_def notify_requests_def issue_def
      split: option.splits)

lemma download_video_from_s3_trace:
  "download_video_from_s3 w key = (r, w1) \<Longrightarrow>
     w1 = w \<or> w1 = issue (S3DownloadFile key) w"
  by (auto simp: download_video_from_s3_def Let_def split: if_splits sum.splits)

lemma download_video_from_s3_empty:
  "s3_objects w key = Some [] \<Longrightarrow> \<exists>e w1. download_video_from_s3 w key = (Inl e, w1)"
  by (auto simp: download_video_from_s3_def s3_download_file_def Let_def
      split: option.splits)

lemma download_video_from_s3_empty_message:
  "s3_objects w key = Some [] \<Longrightarrow> truthy (S3_BUCKET_NAME (environ w)) \<Longrightarrow>
   s3_download_error (services w) = None \<Longrightarrow>
   download_video_from_s3 w key =
     (Inl (Exception ''Failed to download from S3: Downloaded file is empty''),
      issue (S3DownloadFile key) w)"
  by (auto simp: download_video_from_s3_def s3_download_file_def Let_def
      split: option.splits)

lemma upload_to_api_video_try_trace:
  "upload_to_api_video_try w c t = (r, w1) \<Longrightarrow> \<exists>tr. w1 = w\<lparr>trace := trace w @ tr\<rparr>"
  by (auto simp: upload_to_api_video_try_def Let_def issue_def
      split: http.splits option.splits if_splits)

lemma upload_to_api_video_trace:
  assumes "upload_to_api_video w c t = (r, w1)"
  shows "\<exists>tr. w1 = w\<lparr>trace := trace w @ tr\<rparr>"
proof (cases "truthy (API_VIDEO_KEY (environ w))")
  case True
  obtain r' w' where u: "upload_to_api_video_try w c t = (r', w')"
    by (cases "upload_to_api_video_try w c t")
  then have "w1 = w'"
    using assms True
    by (auto simp: upload_to_api_video_def split: sum.splits exn.splits)
  then show ?thesis
    using upload_to_api_video_try_trace [OF u] by simp
next
  case False
  then have "w1 = w\<lparr>trace := trace w @ []\<rparr>"
    using assms by (simp add: upload_to_api_video_def)
  then show ?thesis by blast
qed

lemma update_submission_with_video_url_fail:
  assumes "update_submission_with_video_url w sid url vid = (Inl e, w1)"
  shows "w1 = w \<or> w1 = connected w"
proof -
  consider
      (ok) "connect_env w = (Inr (), connected w)"
    | (url) e' where "connect_env w = (Inl e', w)"
    | (db) m where "connect_env w = (Inl (DatabaseError m), connected w)"
    using connect_env_cases [of w] by blast
  then show ?thesis
  proof cases
    case ok
    then show ?thesis
      using assms
      by (simp add: update_submission_with_video_url_def split: option.splits)
  next
    case url
    then show ?thesis
      using assms by (simp add: update_submission_with_video_url_def)
  next
    case db
    then show ?thesis
      using assms by (simp add: update_submission_with_video_url_def)
  qed
qed

lemma unchanged_refl [simp]: "unchanged w w"
  by (simp add: unchanged_def)

lemma set_tl_subset: "set (tl xs) \<subseteq> set xs"
  by (cases xs) auto

lemma unchanged_connected [simp]: "unchanged w (connected w)"
  by (simp add: unchanged_def set_tl_subset)

lemma unchanged_trace [simp]: "unchanged w (w\<lparr>trace := tr\<rparr>)"
  by (simp add: unchanged_def)

lemma unchanged_issue [simp]: "unchanged w (issue r w)"
  by (simp add: unchanged_def)

lemma unchanged_trans: "unchanged w w1 \<Longrightarrow> unchanged w1 w2 \<Longrightarrow> unchanged w w2"
  by (auto simp: unchanged_def)

lemma unchanged_url_usable: "unchanged w w1 \<Longrightarrow> url_usable w1 = url_usable w"
  by (simp add: unchanged_def url_usable_def)

lemma get_submission_data_unchanged:
  "get_submission_data w sid = (r, w1) \<Longrightarrow> unchanged w w1 \<and> trace w1 = trace w"
  using get_submission_data_cases [of w sid] by auto

lemma download_video_from_s3_unchanged:
  "download_video_from_s3 w key = (r, w1) \<Longrightarrow>
     unchanged w w1 \<and> filter is_publish_request (trace w1) = filter is_publish_request (trace w)"
  using download_video_from_s3_trace [of w key r w1] by auto

lemma upload_to_api_video_unchanged:
  "upload_to_api_video w c t = (r, w1) \<Longrightarrow> unchanged w w1"
  using upload_to_api_video_trace [of w c t r w1] by auto

lemma update_submission_with_video_url_fail_unchanged:
  "update_submission_with_video_url w sid url vid = (Inl e, w1) \<Longrightarrow> unchanged w w1"
  using update_submission_with_video_url_fail [of w sid url vid e w1] by auto

text \<open>A failure of the body leaves the tables as they were.\<close>

lemma process_video_submission_try_fail:
  assumes "process_video_submission_try w sid vid key title = (Inl e, w1)"
  shows "unchanged w w1"
proof -
  obtain r0 w0 where g: "get_submission_data w sid = (r0, w0)"
    by (cases "get_submission_data w sid")
  note u0 = get_submission_data_unchanged [OF g]
  show ?thesis
  proof (cases r0)
    case (Inl e0)
    then show ?thesis
      using assms g u0 by (simp add: process_video_submission_try_def)
  next
    case (Inr found)
    show ?thesis
    proof (cases found)
      case None
      then show ?thesis
        using assms g u0 Inr by (simp add: process_video_submission_try_def)
    next
      case (Some rv)
      obtain row v where rv: "rv = (row, v)"
        by (cases rv)
      show ?thesis
      proof (cases "volunteer_id row = vid")
        case False
        then show ?thesis
          using assms g u0 Inr Some rv by (simp add: process_video_submission_try_def)
      next
        case True
        obtain r2 w2 where d: "download_video_from_s3 w0 key = (r2, w2)"
          by (cases "download_video_from_s3 w0 key")
        note u2 = download_video_from_s3_unchanged [OF d]
        show ?thesis
        proof (cases r2)
          case (Inl e2)
          then show ?thesis
            using assms g u0 Inr Some rv True d u2
            by (auto simp: process_video_submission_try_def intro: unchanged_trans)
        next
          case c: (Inr content)
          obtain r3 w3 where up: "upload_to_api_video w2 content title = (r3, w3)"
            by (cases "upload_to_api_video w2 content title")
          note u3 = upload_to_api_video_unchanged [OF up]
          have u03: "unchanged w w3"
            using u0 u2 u3 unchanged_trans by blast
          show ?thesis
          proof (cases r3)
            case (Inl e3)
            then show ?thesis
              using assms g Inr Some rv True d c up u03
              by (simp add: process_video_submission_try_def)
          next
            case url: (Inr api_video_url)
            obtain r4 w4 where
              w: "update_submission_with_video_url w3 sid api_video_url vid = (r4, w4)"
              by (cases "update_submission_with_video_url w3 sid api_video_url vid")
            show ?thesis
            proof (cases r4)
              case (Inl e4)
              then have "unchanged w3 w4"
                using w update_submission_with_video_url_fail_unchanged by blast
              moreover have "w1 = w4"
                using assms g Inr Some rv True d c up url w Inl
                by (simp add: process_video_submission_try_def)
              ultimately show ?thesis
                using u03 unchanged_trans by blast
            next
              case ok: (Inr updated)
              then show ?thesis
                using assms g Inr Some rv True d c up url w
                by (simp add: process_video_submission_try_def Let_def)
            qed
          qed
        qed
      qed
    qed
  qed
qed

lemmas demo_defs =
  demo_world_def demo_environ_def demo_services_def alice_def demo_submission_def
  new_submission_def demo_chat_def video_message_def demo_publish_event_def
  demo_notify_event_def no_database_world_def empty_staged_world_def
  upload_failure_world_def no_token_world_def database_down_world_def
  telegram_down_world_def

lemmas db_defs =
  connect_env_def psycopg2_connect_def convert_database_url_def async_scheme_def
  sync_scheme_def joined_def utcnow_def issue_def

lemma decline_rows_urls:
  "map video_platform_url (decline_rows sid reason now rows) = map video_platform_url rows"
  by (induction rows) (simp_all add: decline_rows_def status_row_def)

lemma notify_requests_not_publish [simp]:
  "filter is_publish_request (notify_requests w sid vid st msg) = []"
  by (simp add: notify_requests_def)

lemma update_submission_status_unchanged_but_rows:
  "trace (update_submission_status w sid st reason) = trace w"
  "environ (update_submission_status w sid st reason) = environ w"
  "clock (update_submission_status w sid st reason) = clock w"
  "s3_objects (update_submission_status w sid st reason) = s3_objects w"
  "volunteers (update_submission_status w sid st reason) = volunteers w"
  by (simp_all add: update_submission_status_eq)

lemma notify_requests_environ:
  "environ w' = environ w \<Longrightarrow> notify_requests w' sid vid st msg = notify_requests w sid vid st msg"
  by (simp add: notify_requests_def)

lemma process_video_submission_try_empty:
  assumes z: "s3_objects w key = Some []"
  shows "\<exists>e w1. process_video_submission_try w sid vid key title = (Inl e, w1) \<and>
           filter is_publish_request (trace w1) = filter is_publish_request (trace w) \<and>
           (\<forall>row v w0. get_submission_data w sid = (Inr (Some (row, v)), w0) \<and>
               volunteer_id row = vid \<and> truthy (S3_BUCKET_NAME (environ w)) \<and>
               s3_download_error (services w) = None \<longrightarrow>
               e = Exception ''Failed to download from S3: Downloaded file is empty'')"
proof -
  obtain r0 w0 where g: "get_submission_data w sid = (r0, w0)"
    by (cases "get_submission_data w sid")
  note u0 = get_submission_data_unchanged [OF g]
  show ?thesis
  proof (cases r0)
    case (Inl e0)
    then show ?thesis
      using g u0 by (simp add: process_video_submission_try_def)
  next
    case (Inr found)
    show ?thesis
    proof (cases found)
      case None
      then show ?thesis
        using g u0 Inr by (simp add: process_video_submission_try_def)
    next
      case (Some rv)
      obtain row v where rv: "rv = (row, v)"
        by (cases rv)
      show ?thesis
      proof (cases "volunteer_id row = vid")
        case False
        then show ?thesis
          using g u0 Inr Some rv by (simp add: process_video_submission_try_def)
      next
        case True
        have z0: "s3_objects w0 key = Some []"
          using u0 z by (simp add: unchanged_def)
        obtain e2 w2 where d: "download_video_from_s3 w0 key = (Inl e2, w2)"
          using download_video_from_s3_empty [OF z0] by blast
        note u2 = download_video_from_s3_unchanged [OF d]
        have body: "process_video_submission_try w sid vid key title = (Inl e2, w2)"
          using g Inr Some rv True d by (simp add: process_video_submission_try_def)
        have "e2 = Exception ''Failed to download from S3: Downloaded file is empty''"
          if "truthy (S3_BUCKET_NAME (environ w))" "s3_download_error (services w) = None"
        proof -
          have "truthy (S3_BUCKET_NAME (environ w0))" "s3_download_error (services w0) = None"
            using that u0 by (simp_all add: unchanged_def)
          then show ?thesis
            using download_video_from_s3_empty_message [OF z0] d by simp
        qed
        then show ?thesis
          using body u0 u2 by auto
      qed
    qed
  qed
qed

lemmas publish_defs =
  process_video_submission_def process_video_submission_try_def get_submission_data_def
  download_video_from_s3_def s3_download_file_def upload_to_api_video_def
  upload_to_api_video_try_def update_submission_with_video_url_def
  update_submission_status_def cleanup_s3_file_def trigger_response_handler_def
  video_processor_lambda_handler_def video_processor_try_def publish_row_def status_row_def
  success_message_def failure_message_def

lemma terminal_status_row:
  "reason \<noteq> [] \<Longrightarrow> terminal_consistent (status_row ''DECLINED'' (Some reason) now vs)"
  by (simp add: terminal_consistent_def status_row_def)

lemma terminal_publish_row:
  "url \<noteq> [] \<Longrightarrow> terminal_consistent (publish_row url now vs)"
  by (simp add: terminal_consistent_def publish_row_def)

lemma terminal_notification_row:
  "terminal_consistent (notification_row b now vs) = terminal_consistent vs"
  by (simp add: terminal_consistent_def notification_row_def)

lemma terminal_new_submission:
  "terminal_consistent (new_submission sid vid file_id now)"
  by (simp add: terminal_consistent_def new_submission_def)

lemma unchanged_terminal:
  "unchanged w w1 \<Longrightarrow> terminal_consistent_table w1 = terminal_consistent_table w"
  by (simp add: unchanged_def terminal_consistent_table_def)

lemma unchanged_driver:
  "unchanged w w1 \<Longrightarrow> driver_messages_given w \<Longrightarrow> driver_messages_given w1"
  by (auto simp: unchanged_def driver_messages_given_def)

lemma update_submission_status_terminal:
  assumes "reason \<noteq> []" "terminal_consistent_table w"
  shows "terminal_consistent_table (update_submission_status w sid ''DECLINED'' (Some reason))"
  using assms
  by (auto simp: update_submission_status_eq terminal_consistent_table_def list_all_iff
      terminal_status_row)

lemma update_submission_status_script:
  "set (db_script (update_submission_status w sid st reason)) \<subseteq> set (db_script w)"
  using set_tl_subset [of "db_script w"] by (simp add: update_submission_status_eq)

lemma trigger_response_handler_rows [simp]:
  "video_submissions (trigger_response_handler w sid vid st msg) = video_submissions w"
  "db_script (trigger_response_handler w sid vid st msg) = db_script w"
  by (simp_all add: trigger_response_handler_eq)

lemma cleanup_s3_file_rows [simp]:
  "video_submissions (cleanup_s3_file w key) = video_submissions w"
  "db_script (cleanup_s3_file w key) = db_script w"
  "environ (cleanup_s3_file w key) = environ w"
  by (simp_all add: cleanup_s3_file_def Let_def split: option.splits)

lemma download_video_from_s3_text:
  "download_video_from_s3 w key = (Inl e, w1) \<Longrightarrow> str_exn e \<noteq> []"
  by (auto simp: download_video_from_s3_def Let_def split: if_splits sum.splits)

lemma upload_to_api_video_text:
  "upload_to_api_video w c t = (Inl e, w1) \<Longrightarrow> str_exn e \<noteq> []"
  by (auto simp: upload_to_api_video_def split: if_splits prod.splits sum.splits exn.splits)

lemma truthy_fmt: "truthy x \<Longrightarrow> fmt x \<noteq> []"
  by (cases x) auto

lemma upload_to_api_video_try_url:
  "upload_to_api_video_try w c t = (Inr url, w1) \<Longrightarrow> url \<noteq> []"
  by (auto simp: upload_to_api_video_try_def Let_def dest: truthy_fmt
      split: http.splits option.splits if_splits)

lemma upload_to_api_video_url:
  "upload_to_api_video w c t = (Inr url, w1) \<Longrightarrow> url \<noteq> []"
  using upload_to_api_video_try_url [of w c t url]
  by (auto simp: upload_to_api_video_def split: if_splits prod.splits sum.splits exn.splits)

lemma driver_text: "driver_messages_given w \<Longrightarrow> DbError m \<in> set (db_script w) \<Longrightarrow> m \<noteq> []"
  by (auto simp: driver_messages_given_def)

lemma get_submission_data_text:
  assumes "get_submission_data w sid = (Inl e, w1)" "driver_messages_given w"
  shows "str_exn e \<noteq> []"
  using get_submission_data_cases [of w sid] assms driver_text [of w] by auto

lemma update_submission_with_video_url_terminal:
  assumes run: "update_submission_with_video_url w sid url vid = (r, w1)"
      and url: "url \<noteq> []"
      and inv: "terminal_consistent_table w"
      and drv: "driver_messages_given w"
  shows "terminal_consistent_table w1 \<and> set (db_script w1) \<subseteq> set (db_script w) \<and>
         (\<forall>e. r = Inl e \<longrightarrow> str_exn e \<noteq> [])"
proof -
  consider
      (ok) "connect_env w = (Inr (), connected w)"
    | (bad) e' where "connect_env w = (Inl e', w)" "str_exn e' \<noteq> []"
    | (db) m where "connect_env w = (Inl (DatabaseError m), connected w)"
        "DbError m \<in> set (db_script w)"
    using connect_env_cases [of w] by blast
  then show ?thesis
  proof cases
    case ok
    show ?thesis
    proof (cases "find (\<lambda>vs. s_id vs = sid \<and> volunteer_id vs = vid) (video_submissions w)")
      case None
      then show ?thesis
        using run ok inv
        by (auto simp: update_submission_with_video_url_def terminal_consistent_table_def
            set_tl_subset [THEN subsetD])
    next
      case (Some vs)
      then have "w1 = (connected w)\<lparr>video_submissions :=
                  map (\<lambda>vs. if s_id vs = sid \<and> volunteer_id vs = vid
                            then publish_row url (clock w) vs else vs)
                    (video_submissions w)\<rparr>" and "\<exists>x. r = Inr x"
        using run ok by (auto simp: update_submission_with_video_url_def utcnow_def)
      then show ?thesis
        using inv url
        by (auto simp: terminal_consistent_table_def list_all_iff terminal_publish_row
            set_tl_subset [THEN subsetD])
    qed
  next
    case bad
    then show ?thesis
      using run inv by (auto simp: update_submission_with_video_url_def)
  next
    case db
    then show ?thesis
      using run inv drv driver_text [of w m]
      by (auto simp: update_submission_with_video_url_def terminal_consistent_table_def
          set_tl_subset [THEN subsetD])
  qed
qed

lemma process_video_submission_try_terminal:
  assumes run: "process_video_submission_try w sid vid key title = (r, w1)"
      and inv: "terminal_consistent_table w"
      and drv: "driver_messages_given w"
  shows "terminal_consistent_table w1 \<and> set (db_script w1) \<subseteq> set (db_script w) \<and>
         (\<forall>e. r = Inl e \<longrightarrow> str_exn e \<noteq> [])"
proof -
  obtain r0 w0 where g: "get_submission_data w sid = (r0, w0)"
    by (cases "get_submission_data w sid")
  have u0: "unchanged w w0"
    using get_submission_data_unchanged [OF g] by simp
  have s0: "set (db_script w0) \<subseteq> set (db_script w)"
    using u0 by (simp add: unchanged_def)
  have i0: "terminal_consistent_table w0"
    using u0 inv by (simp add: unchanged_terminal)
  show ?thesis
  proof (cases r0)
    case (Inl e0)
    then show ?thesis
      using run g i0 s0 get_submission_data_text [of w sid e0 w0] drv
      by (auto simp: process_video_submission_try_def)
  next
    case (Inr found)
    show ?thesis
    proof (cases found)
      case None
      then show ?thesis
        using run g i0 s0 Inr by (auto simp: process_video_submission_try_def)
    next
      case (Some rv)
      obtain row v where rv: "rv = (row, v)"
        by (cases rv)
      show ?thesis
      proof (cases "volunteer_id row = vid")
        case False
        then show ?thesis
          using run g i0 s0 Inr Some rv by (auto simp: process_video_submission_try_def)
      next
        case True
        obtain r2 w2 where d: "download_video_from_s3 w0 key = (r2, w2)"
          by (cases "download_video_from_s3 w0 key")
        have u2: "unchanged w w2"
          using download_video_from_s3_unchanged [OF d] u0 unchanged_trans by blast
        show ?thesis
        proof (cases r2)
          case (Inl e2)
          then have "r = Inl e2" "w1 = w2"
            using run g Inr Some rv True d by (simp_all add: process_video_submission_try_def)
          moreover have "terminal_consistent_table w2"
            using u2 inv unchanged_terminal by blast
          moreover have "set (db_script w2) \<subseteq> set (db_script w)"
            using u2 by (simp add: unchanged_def)
          moreover have "str_exn e2 \<noteq> []"
            using download_video_from_s3_text d Inl by blast
          ultimately show ?thesis
            by simp
        next
          case c: (Inr content)
          obtain r3 w3 where up: "upload_to_api_video w2 content title = (r3, w3)"
            by (cases "upload_to_api_video w2 content title")
          have u3: "unchanged w w3"
            using upload_to_api_video_unchanged [OF up] u2 unchanged_trans by blast
          show ?thesis
          proof (cases r3)
            case (Inl e3)
            then have "r = Inl e3" "w1 = w3"
              using run g Inr Some rv True d c up
              by (simp_all add: process_video_submission_try_def)
            moreover have "terminal_consistent_table w3"
              using u3 inv unchanged_terminal by blast
            moreover have "set (db_script w3) \<subseteq> set (db_script w)"
              using u3 by (simp add: unchanged_def)
            moreover have "str_exn e3 \<noteq> []"
              using upload_to_api_video_text up Inl by blast
            ultimately show ?thesis
              by simp
          next
            case url: (Inr api_video_url)
            obtain r4 w4 where
              w: "update_submission_with_video_url w3 sid api_video_url vid = (r4, w4)"
              by (cases "update_submission_with_video_url w3 sid api_video_url vid")
            have ne: "api_video_url \<noteq> []"
              using up url upload_to_api_video_url by blast
            have t4: "terminal_consistent_table w4 \<and> set (db_script w4) \<subseteq> set (db_script w3) \<and>
                (\<forall>e. r4 = Inl e \<longrightarrow> str_exn e \<noteq> [])"
              using update_submission_with_video_url_terminal [OF w ne] u3 inv drv
              by (simp add: unchanged_terminal unchanged_driver)
            have s3: "set (db_script w3) \<subseteq> set (db_script w)"
              using u3 by (simp add: unchanged_def)
            show ?thesis
            proof (cases r4)
              case (Inl e4)
              then have "r = Inl e4" "w1 = w4"
                using run g Inr Some rv True d c up url w
                by (simp_all add: process_video_submission_try_def)
              then show ?thesis
                using t4 s3 Inl by auto
            next
              case ok: (Inr updated)
              then have "\<exists>x. r = Inr x" "video_submissions w1 = video_submissions w4"
                "db_script w1 = db_script w4"
                using run g Inr Some rv True d c up url w
                by (auto simp: process_video_submission_try_def Let_def)
              then show ?thesis
                using t4 s3 by (auto simp: terminal_consistent_table_def)
            qed
          qed
        qed
      qed
    qed
  qed
qed

subsection \<open>The notification stage\<close>

lemma get_submission_details_unchanged:
  "get_submission_details w sid = (d, w1) \<Longrightarrow> unchanged w w1 \<and> trace w1 = trace w"
  using connect_env_cases [of w]
  by (auto simp: get_submission_details_def split: if_splits)

lemma send_telegram_response_try_unchanged:
  assumes "send_telegram_response_try w vid sid st msg = (r, w1)"
  shows "unchanged w w1"
proof (cases "truthy (TELEGRAM_BOT_TOKEN (environ w))")
  case True
  obtain d w0 where g: "get_submission_details w sid = (d, w0)"
    by (cases "get_submission_details w sid")
  have "unchanged w w0"
    using get_submission_details_unchanged [OF g] by simp
  moreover have "\<exists>req. w1 = issue req w0"
    using assms True g
    by (auto simp: send_telegram_response_try_def Let_def
        split: http.splits if_splits option.splits)
  ultimately show ?thesis
    using unchanged_issue unchanged_trans by blast
next
  case False
  then show ?thesis
    using assms by (simp add: send_telegram_response_try_def)
qed

lemma send_telegram_response_unchanged:
  assumes "send_telegram_response w vid sid st msg = (r, w1)"
  shows "unchanged w w1"
proof -
  obtain r' w' where t: "send_telegram_response_try w vid sid st msg = (r', w')"
    by (cases "send_telegram_response_try w vid sid st msg")
  then have "w1 = w'"
    using assms by (auto simp: send_telegram_response_def split: sum.splits exn.splits)
  then show ?thesis
    using send_telegram_response_try_unchanged [OF t] by simp
qed

lemma update_notification_status_eq:
  "update_notification_status w sid b =
     (if db_usable w
      then (connected w)\<lparr>video_submissions :=
             map (\<lambda>vs. if s_id vs = sid then notification_row b (clock w) vs else vs)
               (video_submissions w)\<rparr>
      else if url_usable w then connected w else w)"
proof (cases "truthy (DATABASE_URL (environ w))")
  case True
  then show ?thesis
    using connect_env_cases [of w]
    by (auto simp: update_notification_status_def utcnow_def db_usable_def)
next
  case False
  then have "\<not> url_usable w"
    using url_usable_truthy by blast
  then show ?thesis
    using False by (simp add: update_notification_status_def db_usable_def)
qed

lemma update_notification_status_terminal:
  "terminal_consistent_table w \<Longrightarrow> terminal_consistent_table (update_notification_status w sid b)"
  by (auto simp: update_notification_status_eq terminal_consistent_table_def list_all_iff
      terminal_notification_row)

lemma response_handler_try_terminal:
  assumes "response_handler_try w ev = (r, w1)" "terminal_consistent_table w"
  shows "terminal_consistent_table w1"
proof (cases "\<exists>sid vid st msg. ne_submission_id ev = Some sid \<and> ne_volunteer_id ev = Some vid \<and>
    ne_status ev = Some st \<and> ne_message ev = Some msg")
  case True
  then obtain sid vid st msg where ev: "ne_submission_id ev = Some sid"
    "ne_volunteer_id ev = Some vid" "ne_status ev = Some st" "ne_message ev = Some msg"
    by blast
  obtain res w0 where s: "send_telegram_response w vid sid st msg = (res, w0)"
    by (cases "send_telegram_response w vid sid st msg")
  have "terminal_consistent_table w0"
    using send_telegram_response_unchanged [OF s] assms(2) unchanged_terminal by blast
  moreover have "w1 = update_notification_status w0 sid (sent res)"
    using assms(1) ev s by (simp add: response_handler_try_def)
  ultimately show ?thesis
    by (simp add: update_notification_status_terminal)
next
  case False
  then have "w1 = w"
    using assms(1) by (auto simp: response_handler_try_def split: option.splits)
  then show ?thesis
    using assms(2) by simp
qed

lemma response_lambda_handler_terminal:
  assumes "terminal_consistent_table w"
  shows "terminal_consistent_table (snd (response_lambda_handler w ev))"
proof -
  obtain r w1 where t: "response_handler_try w ev = (r, w1)"
    by (cases "response_handler_try w ev")
  then have "snd (response_lambda_handler w ev) = w1"
    by (cases r) (simp_all add: response_lambda_handler_def)
  then show ?thesis
    using response_handler_try_terminal [OF t assms] by simp
qed

subsection \<open>The publish stage\<close>

lemma process_video_submission_terminal:
  assumes inv: "terminal_consistent_table w" and drv: "driver_messages_given w"
  shows "terminal_consistent_table (snd (process_video_submission w sid vid key title))"
proof -
  obtain r w1 where t: "process_video_submission_try w sid vid key title = (r, w1)"
    by (cases "process_video_submission_try w sid vid key title")
  note p = process_video_submission_try_terminal [OF t inv drv]
  show ?thesis
  proof (cases r)
    case (Inl e)
    then have "str_exn e \<noteq> []"
      using p by simp
    then have "terminal_consistent_table
        (update_submission_status w1 sid ''DECLINED'' (Some (str_exn e)))"
      using p update_submission_status_terminal by blast
    then show ?thesis
      using t Inl
      by (simp add: process_video_submission_def Let_def terminal_consistent_table_def)
  next
    case (Inr res)
    then show ?thesis
      using t p by (simp add: process_video_submission_def)
  qed
qed

lemma video_processor_lambda_handler_terminal:
  assumes inv: "terminal_consistent_table w" and drv: "driver_messages_given w"
  shows "terminal_consistent_table (snd (video_processor_lambda_handler w ev))"
proof -
  obtain r w1 where t: "video_processor_try w ev = (r, w1)"
    by (cases "video_processor_try w ev")
  have i1: "terminal_consistent_table w1"
  proof (cases "\<exists>sid vid key. pe_submission_id ev = Some sid \<and> pe_volunteer_id ev = Some vid \<and>
      pe_s3_key ev = Some key")
    case True
    then obtain sid vid key title where
      "video_processor_try w ev = process_video_submission w sid vid key title"
      by (auto simp: video_processor_try_def)
    then have "w1 = snd (process_video_submission w sid vid key title)"
      using t by (metis snd_conv)
    then show ?thesis
      using process_video_submission_terminal [OF inv drv, of sid vid key title] by simp
  next
    case False
    then have "w1 = w"
      using t by (auto simp: video_processor_try_def split: option.splits)
    then show ?thesis
      using inv by simp
  qed
  show ?thesis
  proof (cases r)
    case (Inl e)
    have "''Processing failed: '' @ str_exn e \<noteq> []"
      by simp
    then have "terminal_consistent_table (update_submission_status w1 sid ''DECLINED''
        (Some (''Processing failed: '' @ str_exn e)))" for sid
      using i1 update_submission_status_terminal by blast
    then show ?thesis
      using t Inl i1
      by (auto simp: video_processor_lambda_handler_def split: option.splits)
  next
    case (Inr res)
    then show ?thesis
      using t i1 by (simp add: video_processor_lambda_handler_def)
  qed
qed

subsection \<open>The intake stage\<close>

lemma check_volunteer_exists_eq:
  "check_volunteer_exists w c =
     (if db_usable w then (find (\<lambda>v. v_id v = c) (volunteers w), connected w)
      else if url_usable w then (None, connected w) else (None, w))"
proof (cases "truthy (DATABASE_URL (environ w))")
  case True
  then show ?thesis
    using connect_env_cases [of w]
    by (auto simp: check_volunteer_exists_def db_usable_def)
next
  case False
  then have "\<not> url_usable w"
    using url_usable_truthy by blast
  then show ?thesis
    using False by (simp add: check_volunteer_exists_def db_usable_def)
qed

lemma send_registration_request_eq:
  "send_registration_request w (chat_id (chat m)) (user_first_name m) =
     w\<lparr>trace := trace w @ prompt_requests w m\<rparr>"
  by (simp add: send_registration_request_def prompt_requests_def issue_def)

lemma send_simple_message_unchanged [simp]:
  "unchanged w (send_simple_message w c txt)"
  by (simp add: send_simple_message_def)

lemma complete_user_registration_rows:
  "complete_user_registration w c phone m = (b, w1) \<Longrightarrow>
     video_submissions w1 = video_submissions w \<and> s3_objects w1 = s3_objects w \<and>
     trace w1 = trace w \<and> environ w1 = environ w"
  using connect_env_cases [of w]
  by (auto simp: complete_user_registration_def)

lemma download_video_to_s3_rows:
  "download_video_to_s3 w f sid = (r, w1) \<Longrightarrow>
     video_submissions w1 = video_submissions w \<and> environ w1 = environ w \<and>
     db_script w1 = db_script w \<and> volunteers w1 = volunteers w"
  by (auto simp: download_video_to_s3_def Let_def
      split: if_splits http.splits option.splits)

lemma trigger_video_processor_rows [simp]:
  "video_submissions (trigger_video_processor w sid vid key c) = video_submissions w"
  "db_script (trigger_video_processor w sid vid key c) = db_script w"
  by (simp_all add: trigger_video_processor_def split: option.splits)

text \<open>The three ways \<open>process_video_from_registered_user\<close> can go.\<close>

lemma process_video_from_registered_user_cases:
  assumes run: "process_video_from_registered_user w m vol f t = (r, w1)"
  shows "(\<not> db_usable w \<and> (\<exists>e. r = Inl e) \<and> unchanged w w1 \<and> trace w1 = trace w) \<or>
         (db_usable w \<and> w1 = connected w \<and>
            (\<exists>ex. find (\<lambda>vs. telegram_file_id vs = f) (video_submissions w) = Some ex \<and>
                  r = Inr (Duplicate (s_id ex)))) \<or>
         (db_usable w \<and> find (\<lambda>vs. telegram_file_id vs = f) (video_submissions w) = None \<and>
            video_submissions w1 = video_submissions w @
              [new_submission (uuid4 (services w) (uuid_count w)) (v_id vol) f (clock w)] \<and>
            set (db_script w1) \<subseteq> set (db_script w) \<and>
            (\<forall>sid vid pv ph k msg. r = Inr (Success sid vid pv ph k msg) \<longrightarrow>
               sid = uuid4 (services w) (uuid_count w)))"
proof -
  consider
      (ok) "connect_env w = (Inr (), connected w)" "db_usable w"
    | (bad) e where "connect_env w = (Inl e, w)" "\<not> url_usable w"
    | (db) m where "connect_env w = (Inl (DatabaseError m), connected w)" "\<not> db_answers w"
    using connect_env_cases [of w] by blast
  then show ?thesis
  proof cases
    case ok
    show ?thesis
    proof (cases "find (\<lambda>vs. telegram_file_id vs = f) (video_submissions w)")
      case (Some ex)
      then show ?thesis
        using run ok by (simp add: process_video_from_registered_user_def)
    next
      case None
      let ?sid = "uuid4 (services w) (uuid_count w)"
      let ?w2 = "(connected w)\<lparr>uuid_count := uuid_count w + 1,
                    video_submissions := video_submissions w @
                      [new_submission ?sid (v_id vol) f (clock w)]\<rparr>"
      obtain r3 w3 where d: "download_video_to_s3 ?w2 f ?sid = (r3, w3)"
        by (cases "download_video_to_s3 ?w2 f ?sid")
      note rows = download_video_to_s3_rows [OF d]
      have "video_submissions w1 = video_submissions ?w2 \<and> db_script w1 = db_script ?w2 \<and>
          (\<forall>sid vid pv ph k msg. r = Inr (Success sid vid pv ph k msg) \<longrightarrow> sid = ?sid)"
        using run ok None d rows
        by (cases r3)
           (auto simp: process_video_from_registered_user_def Let_def utcnow_def)
      then show ?thesis
        using ok None set_tl_subset [of "db_script w"] by simp
    qed
  next
    case bad
    then show ?thesis
      using run by (auto simp: process_video_from_registered_user_def db_usable_def)
  next
    case db
    then show ?thesis
      using run by (auto simp: process_video_from_registered_user_def db_usable_def)
  qed
qed

lemma process_video_from_registered_user_rows:
  assumes "process_video_from_registered_user w m vol f t = (r, w1)"
  shows "video_submissions w1 = video_submissions w \<or>
         (\<exists>sid vid now. video_submissions w1 =
            video_submissions w @ [new_submission sid vid f now])"
  using process_video_from_registered_user_cases [OF assms]
  by (auto simp: unchanged_def)

lemma process_telegram_update_rows:
  assumes run: "process_telegram_update w update = (r, w1)"
  shows "video_submissions w1 = video_submissions w \<or>
         (\<exists>sid vid f now. video_submissions w1 =
            video_submissions w @ [new_submission sid vid f now])"
proof (cases update)
  case None
  then show ?thesis
    using run by (simp add: process_telegram_update_def)
next
  case (Some m)
  show ?thesis
  proof (cases "contact m")
    case c: (Some c)
    let ?cid = "case contact_user_id c of None \<Rightarrow> chat_id (chat m) | Some u \<Rightarrow> u"
    obtain b w0 where reg:
      "complete_user_registration w ?cid (contact_phone_number c) m = (b, w0)"
      by (cases "complete_user_registration w ?cid (contact_phone_number c) m")
    have "video_submissions w0 = video_submissions w"
      using complete_user_registration_rows [OF reg] by simp
    moreover have "video_submissions w1 = video_submissions w0"
      using run Some c reg
      by (auto simp: process_telegram_update_def Let_def send_simple_message_def
          send_registration_success_message_def send_registration_error_message_def
          split: if_splits)
    ultimately show ?thesis
      by simp
  next
    case None
    obtain found w0 where chk: "check_volunteer_exists w (chat_id (chat m)) = (found, w0)"
      by (cases "check_volunteer_exists w (chat_id (chat m))")
    have rows0: "video_submissions w0 = video_submissions w"
      using chk by (auto simp: check_volunteer_exists_eq split: if_splits)
    show ?thesis
    proof (cases found)
      case n: None
      then show ?thesis
        using run Some None chk rows0
        by (auto simp: process_telegram_update_def send_registration_request_def)
    next
      case vol: (Some vol)
      show ?thesis
      proof (cases "video_of m")
        case v: None
        then show ?thesis
          using run Some None chk rows0 vol
          by (auto simp: process_telegram_update_def send_simple_message_def
              send_help_message_to_registered_user_def split: if_splits)
      next
        case v: (Some ft)
        obtain f t where ft: "ft = (f, t)"
          by (cases ft)
        have "process_video_from_registered_user w0 m vol f t = (r, w1)"
          using run Some None chk vol v ft by (simp add: process_telegram_update_def)
        then show ?thesis
          using process_video_from_registered_user_rows rows0 by fastforce
      qed
    qed
  qed
qed

lemma webhook_lambda_handler_rows:
  "video_submissions (snd (webhook_lambda_handler w update)) = video_submissions w \<or>
   (\<exists>sid vid f now. video_submissions (snd (webhook_lambda_handler w update)) =
      video_submissions w @ [new_submission sid vid f now])"
proof -
  obtain r w1 where run: "process_telegram_update w update = (r, w1)"
    by (cases "process_telegram_update w update")
  then have "snd (webhook_lambda_handler w update) = w1"
    by (cases r) (simp_all add: webhook_lambda_handler_def)
  then show ?thesis
    using process_telegram_update_rows [OF run] by simp
qed

lemma webhook_lambda_handler_terminal:
  assumes "terminal_consistent_table w"
  shows "terminal_consistent_table (snd (webhook_lambda_handler w update))"
  using webhook_lambda_handler_rows [of w update] assms
  by (auto simp: terminal_consistent_table_def terminal_new_submission)

lemmas intake_defs =
  process_telegram_update_def check_volunteer_exists_def send_registration_request_def
  process_video_from_registered_user_def download_video_to_s3_def
  trigger_video_processor_def video_of_def user_first_name_def user_get_def
  webhook_lambda_handler_def file_extension_def py_or_def

text \<open>The registration gate, whatever the lookup answers \<open>None\<close> for.\<close>

lemma registration_gate_general:
  assumes c: "contact m = None"
      and n: "fst (check_volunteer_exists w (chat_id (chat m))) = None"
  shows "\<exists>w'. process_telegram_update w (Some m) =
           (Inr (RegistrationRequired (chat_id (chat m))
                   ''Registration request sent to new user''), w') \<and>
         unchanged w w' \<and> trace w' = trace w @ prompt_requests w m"
proof -
  obtain w0 where chk: "check_volunteer_exists w (chat_id (chat m)) = (None, w0)"
    using n by (cases "check_volunteer_exists w (chat_id (chat m))") auto
  have u0: "unchanged w w0" and t0: "trace w0 = trace w"
    using chk by (auto simp: check_volunteer_exists_eq split: if_splits)
  have p: "prompt_requests w0 m = prompt_requests w m"
    using u0 by (simp add: prompt_requests_def unchanged_def)
  let ?w' = "w0\<lparr>trace := trace w0 @ prompt_requests w0 m\<rparr>"
  have "process_telegram_update w (Some m) =
      (Inr (RegistrationRequired (chat_id (chat m))
              ''Registration request sent to new user''), ?w')"
    using c chk by (simp add: process_telegram_update_def send_registration_request_eq)
  moreover have "unchanged w ?w'"
    using u0 unchanged_trace unchanged_trans by blast
  ultimately show ?thesis
    using t0 p by simp
qed

lemma find_snoc:
  "find P (xs @ [y]) = (case find P xs of None \<Rightarrow> (if P y then Some y else None) | Some x \<Rightarrow> Some x)"
  by (induction xs) auto

lemma count_file_rows:
  "video_submissions w' = video_submissions w \<Longrightarrow> count_file f w' = count_file f w"
  by (simp add: count_file_def)

lemma count_file_snoc:
  "video_submissions w' = video_submissions w @ [new_submission sid vid f now] \<Longrightarrow>
     count_file f w' = count_file f w + 1"
  by (simp add: count_file_def new_submission_def)

lemma intake_first_rows:
  assumes "process_video_from_registered_user w m vol f t = (r, w1)"
  shows "video_submissions w1 = video_submissions w \<or>
         find (\<lambda>vs. telegram_file_id vs = f) (video_submissions w) = None \<and>
         video_submissions w1 = video_submissions w @
           [new_submission (uuid4 (services w) (uuid_count w)) (v_id vol) f (clock w)]"
  using process_video_from_registered_user_cases [OF assms]
proof (elim disjE conjE exE)
  assume "unchanged w w1"
  then show ?thesis
    by (simp add: unchanged_def)
next
  assume "w1 = connected w"
  then show ?thesis
    by simp
next
  assume "find (\<lambda>vs. telegram_file_id vs = f) (video_submissions w) = None"
    "video_submissions w1 = video_submissions w @
       [new_submission (uuid4 (services w) (uuid_count w)) (v_id vol) f (clock w)]"
  then show ?thesis
    by simp
qed

lemma intake_success_row:
  assumes "process_video_from_registered_user w m vol f t =
             (Inr (Success sid vid pv ph k msg), w1)"
  shows "find (\<lambda>vs. telegram_file_id vs = f) (video_submissions w) = None \<and>
         video_submissions w1 = video_submissions w @
           [new_submission sid (v_id vol) f (clock w)]"
  using process_video_from_registered_user_cases [OF assms]
proof (elim disjE conjE exE)
  fix e :: exn
  assume "Inr (Success sid vid pv ph k msg) = Inl e"
  then show ?thesis
    by simp
next
  fix ex
  assume "Inr (Success sid vid pv ph k msg) = Inr (Duplicate (s_id ex))"
  then show ?thesis
    by simp
next
  assume a: "find (\<lambda>vs. telegram_file_id vs = f) (video_submissions w) = None"
    "video_submissions w1 = video_submissions w @
       [new_submission (uuid4 (services w) (uuid_count w)) (v_id vol) f (clock w)]"
    "\<forall>sid' vid' pv' ph' k' msg'.
       Inr (Success sid vid pv ph k msg) = Inr (Success sid' vid' pv' ph' k' msg') \<longrightarrow>
       sid' = uuid4 (services w) (uuid_count w)"
  from a(3) have "sid = uuid4 (services w) (uuid_count w)"
    by simp
  then show ?thesis
    using a(1,2) by simp
qed

lemma intake_existing_row:
  assumes run: "process_video_from_registered_user w m vol f t = (r, w1)"
      and ex: "find (\<lambda>vs. telegram_file_id vs = f) (video_submissions w) = Some ex"
  shows "unchanged w w1 \<and> trace w1 = trace w \<and> (db_usable w \<longrightarrow> r = Inr (Duplicate (s_id ex)))"
  using process_video_from_registered_user_cases [OF run]
proof (elim disjE conjE exE)
  assume "\<not> db_usable w" "unchanged w w1" "trace w1 = trace w"
  then show ?thesis
    by simp
next
  fix ex'
  assume "w1 = connected w"
    "find (\<lambda>vs. telegram_file_id vs = f) (video_submissions w) = Some ex'"
    "r = Inr (Duplicate (s_id ex'))"
  then show ?thesis
    using ex by simp
next
  assume "find (\<lambda>vs. telegram_file_id vs = f) (video_submissions w) = None"
  then show ?thesis
    using ex by simp
qed

section \<open>Claims\<close>

text \<open>
  C7. For every database connection string: with the async driver scheme
  \<^verbatim>\<open>postgresql+asyncpg://\<close> the normalization returns it rewritten to the synchronous
  scheme \<^verbatim>\<open>postgresql://\<close> (the scheme prefix is replaced, and so is, as
  \<^verbatim>\<open>str.replace\<close> does, any later occurrence of the async scheme in the rest); with the
  synchronous scheme it is returned unchanged; with any other scheme the function raises
  \<^verbatim>\<open>ValueError\<close>, the fatal configuration error.
\<close>

theorem convert_database_url_cases:
  "(startswith u async_scheme \<longrightarrow>
      convert_database_url u =
        Inr (sync_scheme @ replace (drop (length async_scheme) u) async_scheme sync_scheme)) \<and>
   (\<not> startswith u async_scheme \<and> startswith u sync_scheme \<longrightarrow>
      convert_database_url u = Inr u) \<and>
   (\<not> startswith u async_scheme \<and> \<not> startswith u sync_scheme \<longrightarrow>
      convert_database_url u = Inl (ValueError (''Unsupported database URL format: '' @ u)))"
proof -
  have "convert_database_url u =
          Inr (sync_scheme @ replace (drop (length async_scheme) u) async_scheme sync_scheme)"
    if h: "startswith u async_scheme"
  proof -
    obtain r where u: "u = async_scheme @ r"
      using h by (auto simp: startswith_iff)
    have ne: "async_scheme \<noteq> []"
      by (simp add: async_scheme_def)
    show ?thesis
      using h by (simp add: convert_database_url_def u replace_prefix [OF ne])
  qed
  then show ?thesis
    by (simp add: convert_database_url_def)
qed

theorem convert_database_url_cases_witness:
  "startswith ''postgresql+asyncpg://u:p@h/db'' async_scheme \<and>
   convert_database_url ''postgresql+asyncpg://u:p@h/db'' = Inr ''postgresql://u:p@h/db'' \<and>
   \<not> startswith ''postgresql://u:p@h/db'' async_scheme \<and>
   startswith ''postgresql://u:p@h/db'' sync_scheme \<and>
   convert_database_url ''postgresql://u:p@h/db'' = Inr ''postgresql://u:p@h/db'' \<and>
   \<not> startswith ''mysql://h/db'' async_scheme \<and> \<not> startswith ''mysql://h/db'' sync_scheme \<and>
   convert_database_url ''mysql://h/db'' =
     Inl (ValueError ''Unsupported database URL format: mysql://h/db'')"
  using convert_database_url_cases [of "''postgresql+asyncpg://u:p@h/db''"]
    convert_database_url_cases [of "''postgresql://u:p@h/db''"]
    convert_database_url_cases [of "''mysql://h/db''"]
  by (simp add: async_scheme_def sync_scheme_def replace_def)

text \<open>
  C1 (as amended). For every publish-stage invocation whose payload volunteer id differs
  from the volunteer id stored on the fetched Submission record, the stage raises the
  integrity failure without any download, publish call or publish update: the staging
  store and every \<^verbatim>\<open>video_platform_url\<close> are untouched and the only request issued is the
  trigger of the notification stage. The \<^verbatim>\<open>except\<close> clause then writes \<^verbatim>\<open>DECLINED\<close> with
  the mismatch text as \<^verbatim>\<open>decline_reason\<close> on the rows of that submission identifier,
  whenever the database answers that write; the status is not left unchanged.
\<close>

theorem integrity_mismatch_declines:
  assumes g: "get_submission_data w sid = (Inr (Some (row, v)), w1)"
      and m: "volunteer_id row \<noteq> vid"
  shows "\<exists>w'. process_video_submission w sid vid key title =
             (Inl (Exception (mismatch_message vid (volunteer_id row))), w') \<and>
           trace w' = trace w @ notify_requests w sid vid ''error'' failure_message \<and>
           s3_objects w' = s3_objects w \<and>
           map video_platform_url (video_submissions w') =
             map video_platform_url (video_submissions w) \<and>
           video_submissions w' =
             (if db_answers w1
              then decline_rows sid (mismatch_message vid (volunteer_id row)) (clock w)
                     (video_submissions w)
              else video_submissions w)"
proof -
  have w1: "w1 = connected w" and usable: "db_usable w"
    using get_submission_data_cases [of w sid] g by auto
  let ?e = "Exception (mismatch_message vid (volunteer_id row))"
  have body: "process_video_submission_try w sid vid key title = (Inl ?e, w1)"
    using g m by (simp add: process_video_submission_try_def mismatch_message_def)
  let ?w2 = "update_submission_status w1 sid ''DECLINED''
               (Some (mismatch_message vid (volunteer_id row)))"
  let ?w3 = "trigger_response_handler ?w2 sid vid ''error'' failure_message"
  have run: "process_video_submission w sid vid key title = (Inl ?e, ?w3)"
    using body by (simp add: process_video_submission_def Let_def)
  have u1: "db_usable w1 = db_answers w1"
    using usable by (simp add: w1 db_usable_def)
  have env: "environ ?w2 = environ w" and tr: "trace ?w2 = trace w"
    and s3: "s3_objects ?w2 = s3_objects w"
    by (simp_all add: update_submission_status_eq w1)
  have rows: "video_submissions ?w2 =
      (if db_answers w1
       then decline_rows sid (mismatch_message vid (volunteer_id row)) (clock w)
              (video_submissions w)
       else video_submissions w)"
    using u1 by (simp add: update_submission_status_eq w1 decline_rows_def)
  have urls: "map video_platform_url (video_submissions ?w2) =
      map video_platform_url (video_submissions w)"
    by (simp add: rows decline_rows_urls)
  have nr: "notify_requests ?w2 sid vid ''error'' failure_message =
      notify_requests w sid vid ''error'' failure_message"
    by (simp add: notify_requests_def env)
  show ?thesis
    using run rows urls tr s3 nr
    by (simp add: trigger_response_handler_eq)
qed

theorem integrity_mismatch_declines_witness:
  "get_submission_data demo_world ''s1'' = (Inr (Some (demo_submission, alice)), demo_world) \<and>
   volunteer_id demo_submission \<noteq> ''u2'' \<and>
   fst (process_video_submission demo_world ''s1'' ''u2'' ''temp_videos/s1.mp4'' ''clip'') =
     Inl (Exception ''Data mismatch: Expected volunteer u2, got u1'') \<and>
   map status (video_submissions
     (snd (process_video_submission demo_world ''s1'' ''u2'' ''temp_videos/s1.mp4'' ''clip''))) =
     [''DECLINED''] \<and>
   map video_platform_url (video_submissions
     (snd (process_video_submission demo_world ''s1'' ''u2'' ''temp_videos/s1.mp4'' ''clip''))) =
     [None]"
proof -
  have g: "get_submission_data demo_world ''s1'' =
      (Inr (Some (demo_submission, alice)), demo_world)"
    by (simp add: get_submission_data_def demo_defs db_defs)
  have m: "volunteer_id demo_submission \<noteq> ''u2''"
    by (simp add: demo_defs)
  have a: "db_answers demo_world"
    by (simp add: db_answers_def demo_defs)
  show ?thesis
    using g m a integrity_mismatch_declines [OF g m, of "''temp_videos/s1.mp4''" "''clip''"]
    by (auto simp: mismatch_message_def decline_rows_def status_row_def demo_defs)
qed

theorem integrity_mismatch_status_counterexample:
  "fst (get_submission_data demo_world ''s1'') = Inr (Some (demo_submission, alice)) \<and>
   volunteer_id demo_submission \<noteq> ''u2'' \<and>
   fst (process_video_submission demo_world ''s1'' ''u2'' ''temp_videos/s1.mp4'' ''clip'') =
     Inl (Exception ''Data mismatch: Expected volunteer u2, got u1'') \<and>
   map status (video_submissions demo_world) = [''PROCESSING''] \<and>
   map status (video_submissions
     (snd (process_video_submission demo_world ''s1'' ''u2'' ''temp_videos/s1.mp4'' ''clip''))) =
     [''DECLINED'']"
  by (simp add: process_video_submission_def process_video_submission_try_def
      get_submission_data_def update_submission_status_def trigger_response_handler_def
      status_row_def failure_message_def demo_defs db_defs Let_def)

text \<open>
  C4. For every publish-stage invocation in which the payload staged under the key of
  the invocation has zero length, the stage aborts with an error (the inner function
  raises, the entry point answers 500 with the text of the error) and no request to the
  external publishing service, container creation or upload, is issued, neither by
  \<^verbatim>\<open>process_video_submission\<close> nor by the handler around it. When the download is
  reached (record fetched, volunteer ids equal, bucket configured, no storage failure)
  the error is that of the empty file.
\<close>

theorem zero_byte_guard:
  assumes z: "s3_objects w key = Some []"
      and ev: "pe_submission_id ev = Some sid" "pe_volunteer_id ev = Some vid"
        "pe_s3_key ev = Some key" "pe_video_title ev = Some title"
  shows "\<exists>e w1 w2.
           process_video_submission w sid vid key title = (Inl e, w1) \<and>
           video_processor_lambda_handler w ev = (Response500 (str_exn e) sid, w2) \<and>
           filter is_publish_request (trace w1) = filter is_publish_request (trace w) \<and>
           filter is_publish_request (trace w2) = filter is_publish_request (trace w) \<and>
           (\<forall>row v w0. get_submission_data w sid = (Inr (Some (row, v)), w0) \<and>
               volunteer_id row = vid \<and> truthy (S3_BUCKET_NAME (environ w)) \<and>
               s3_download_error (services w) = None \<longrightarrow>
               e = Exception ''Failed to download from S3: Downloaded file is empty'')"
proof -
  obtain e w0 where
    body: "process_video_submission_try w sid vid key title = (Inl e, w0)" and
    tr: "filter is_publish_request (trace w0) = filter is_publish_request (trace w)" and
    msg: "\<forall>row v w0. get_submission_data w sid = (Inr (Some (row, v)), w0) \<and>
               volunteer_id row = vid \<and> truthy (S3_BUCKET_NAME (environ w)) \<and>
               s3_download_error (services w) = None \<longrightarrow>
               e = Exception ''Failed to download from S3: Downloaded file is empty''"
    using process_video_submission_try_empty [OF z, of sid vid title] by blast
  let ?w1 = "trigger_response_handler
               (update_submission_status w0 sid ''DECLINED'' (Some (str_exn e)))
               sid vid ''error'' failure_message"
  let ?w2 = "update_submission_status ?w1 sid ''DECLINED''
               (Some (''Processing failed: '' @ str_exn e))"
  have run: "process_video_submission w sid vid key title = (Inl e, ?w1)"
    using body by (simp add: process_video_submission_def Let_def)
  have handler: "video_processor_lambda_handler w ev = (Response500 (str_exn e) sid, ?w2)"
    using run ev by (simp add: video_processor_lambda_handler_def video_processor_try_def)
  have t1: "filter is_publish_request (trace ?w1) = filter is_publish_request (trace w)"
    using tr
    by (simp add: trigger_response_handler_eq update_submission_status_unchanged_but_rows)
  have t2: "filter is_publish_request (trace ?w2) = filter is_publish_request (trace w)"
    using t1 by (simp only: update_submission_status_unchanged_but_rows)
  show ?thesis
    using run handler t1 t2 msg by blast
qed

theorem zero_byte_guard_witness:
  "s3_objects empty_staged_world ''temp_videos/s1.mp4'' = Some [] \<and>
   pe_submission_id demo_publish_event = Some ''s1'' \<and>
   pe_volunteer_id demo_publish_event = Some ''u1'' \<and>
   pe_s3_key demo_publish_event = Some ''temp_videos/s1.mp4'' \<and>
   pe_video_title demo_publish_event = Some ''clip'' \<and>
   fst (video_processor_lambda_handler empty_staged_world demo_publish_event) =
     Response500 ''Failed to download from S3: Downloaded file is empty'' ''s1'' \<and>
   filter is_publish_request
     (trace (snd (video_processor_lambda_handler empty_staged_world demo_publish_event))) = []"
proof -
  have z: "s3_objects empty_staged_world ''temp_videos/s1.mp4'' = Some []"
    by (simp add: demo_defs)
  have ev: "pe_submission_id demo_publish_event = Some ''s1''"
    "pe_volunteer_id demo_publish_event = Some ''u1''"
    "pe_s3_key demo_publish_event = Some ''temp_videos/s1.mp4''"
    "pe_video_title demo_publish_event = Some ''clip''"
    by (simp_all add: demo_defs)
  have g: "get_submission_data empty_staged_world ''s1'' =
      (Inr (Some (demo_submission, alice)), empty_staged_world)"
    by (simp add: get_submission_data_def demo_defs db_defs)
  have c: "volunteer_id demo_submission = ''u1''"
    "truthy (S3_BUCKET_NAME (environ empty_staged_world))"
    "s3_download_error (services empty_staged_world) = None"
    "trace empty_staged_world = []"
    by (simp_all add: demo_defs)
  show ?thesis
    using zero_byte_guard [OF z ev] z ev g c by fastforce
qed

text \<open>
  C5 (as amended). For every publish-stage invocation whose processing fails with an
  exception \<open>e\<close>: \<^verbatim>\<open>process_video_submission\<close> writes \<^verbatim>\<open>DECLINED\<close> with \<^verbatim>\<open>str(e)\<close> as
  \<^verbatim>\<open>decline_reason\<close> on the rows of the submission identifier when the database is usable
  for that write (and leaves the table as it is otherwise), issues the trigger of the
  notification stage with the \<^verbatim>\<open>error\<close> outcome and the fixed message when a target is
  configured, and re-raises \<open>e\<close>; the entry point then answers 500 with \<^verbatim>\<open>str(e)\<close> and,
  when the database is usable, rewrites the reason to \<^verbatim>\<open>Processing failed: \<close> followed by
  \<^verbatim>\<open>str(e)\<close>, issuing no further request.
\<close>

theorem failure_path:
  assumes body: "process_video_submission_try w sid vid key title = (Inl e, w1)"
      and ev: "pe_submission_id ev = Some sid" "pe_volunteer_id ev = Some vid"
        "pe_s3_key ev = Some key" "pe_video_title ev = Some title"
  shows "\<exists>w2 w3.
           process_video_submission w sid vid key title = (Inl e, w2) \<and>
           video_processor_lambda_handler w ev = (Response500 (str_exn e) sid, w3) \<and>
           trace w2 = trace w1 @ notify_requests w sid vid ''error'' failure_message \<and>
           trace w3 = trace w2 \<and>
           video_submissions w2 =
             (if db_usable w1
              then decline_rows sid (str_exn e) (clock w) (video_submissions w)
              else video_submissions w) \<and>
           video_submissions w3 =
             (if db_usable w2
              then decline_rows sid (''Processing failed: '' @ str_exn e) (clock w)
                     (video_submissions w2)
              else video_submissions w2)"
proof -
  have u: "unchanged w w1"
    using body by (rule process_video_submission_try_fail)
  let ?wd = "update_submission_status w1 sid ''DECLINED'' (Some (str_exn e))"
  let ?w2 = "trigger_response_handler ?wd sid vid ''error'' failure_message"
  let ?w3 = "update_submission_status ?w2 sid ''DECLINED''
               (Some (''Processing failed: '' @ str_exn e))"
  have run: "process_video_submission w sid vid key title = (Inl e, ?w2)"
    using body by (simp add: process_video_submission_def Let_def)
  have handler: "video_processor_lambda_handler w ev = (Response500 (str_exn e) sid, ?w3)"
    using run ev by (simp add: video_processor_lambda_handler_def video_processor_try_def)
  have env: "environ ?wd = environ w" and clk: "clock ?wd = clock w"
    using u by (simp_all add: update_submission_status_unchanged_but_rows unchanged_def)
  have t2: "trace ?w2 = trace w1 @ notify_requests w sid vid ''error'' failure_message"
    by (simp add: trigger_response_handler_eq update_submission_status_unchanged_but_rows
        notify_requests_environ [OF env])
  have t3: "trace ?w3 = trace ?w2"
    by (simp only: update_submission_status_unchanged_but_rows)
  have r2: "video_submissions ?w2 =
      (if db_usable w1
       then decline_rows sid (str_exn e) (clock w) (video_submissions w)
       else video_submissions w)"
    using u by (simp add: trigger_response_handler_eq update_submission_status_eq
        decline_rows_def unchanged_def)
  have c2: "clock ?w2 = clock w"
    using clk by (simp add: trigger_response_handler_eq)
  have r3: "video_submissions ?w3 =
      (if db_usable ?w2
       then decline_rows sid (''Processing failed: '' @ str_exn e) (clock w)
              (video_submissions ?w2)
       else video_submissions ?w2)"
    unfolding update_submission_status_eq [of ?w2] c2
    by (simp add: decline_rows_def)
  show ?thesis
    using run handler t2 t3 r2 r3 by blast
qed

theorem failure_path_witness:
  "process_video_submission_try upload_failure_world ''s1'' ''u1'' ''temp_videos/s1.mp4'' ''clip'' =
     (Inl (Exception ''api.video HTTP upload failed: 503 Server Error''),
      upload_failure_world\<lparr>trace := [S3DownloadFile ''temp_videos/s1.mp4'',
        ApiVideoCreate ''clip'', ApiVideoUploadSource ''vi1'']\<rparr>) \<and>
   pe_submission_id demo_publish_event = Some ''s1'' \<and>
   pe_volunteer_id demo_publish_event = Some ''u1'' \<and>
   pe_s3_key demo_publish_event = Some ''temp_videos/s1.mp4'' \<and>
   pe_video_title demo_publish_event = Some ''clip'' \<and>
   fst (video_processor_lambda_handler upload_failure_world demo_publish_event) =
     Response500 ''api.video HTTP upload failed: 503 Server Error'' ''s1'' \<and>
   map (\<lambda>vs. (status vs, decline_reason vs)) (video_submissions (snd
     (process_video_submission upload_failure_world ''s1'' ''u1'' ''temp_videos/s1.mp4''
        ''clip''))) =
     [(''DECLINED'', Some ''api.video HTTP upload failed: 503 Server Error'')] \<and>
   map (\<lambda>vs. (status vs, decline_reason vs)) (video_submissions (snd
     (video_processor_lambda_handler upload_failure_world demo_publish_event))) =
     [(''DECLINED'', Some ''Processing failed: api.video HTTP upload failed: 503 Server Error'')] \<and>
   trace (snd (video_processor_lambda_handler upload_failure_world demo_publish_event)) =
     [S3DownloadFile ''temp_videos/s1.mp4'', ApiVideoCreate ''clip'',
      ApiVideoUploadSource ''vi1'',
      LambdaInvoke ''response-handler'' (NotifyPayload
        \<lparr>ne_submission_id = Some ''s1'', ne_volunteer_id = Some ''u1'',
         ne_status = Some ''error'', ne_message = Some failure_message\<rparr>)]"
proof -
  let ?w1 = "upload_failure_world\<lparr>trace := [S3DownloadFile ''temp_videos/s1.mp4'',
        ApiVideoCreate ''clip'', ApiVideoUploadSource ''vi1'']\<rparr>"
  have body: "process_video_submission_try upload_failure_world ''s1'' ''u1''
      ''temp_videos/s1.mp4'' ''clip'' =
     (Inl (Exception ''api.video HTTP upload failed: 503 Server Error''), ?w1)"
    by (simp add: publish_defs demo_defs db_defs Let_def)
  have ev: "pe_submission_id demo_publish_event = Some ''s1''"
    "pe_volunteer_id demo_publish_event = Some ''u1''"
    "pe_s3_key demo_publish_event = Some ''temp_videos/s1.mp4''"
    "pe_video_title demo_publish_event = Some ''clip''"
    by (simp_all add: demo_defs)
  have u1: "db_usable ?w1"
    by (simp add: db_usable_def url_usable_def db_answers_def demo_defs async_scheme_def)
  have facts: "trace ?w1 = [S3DownloadFile ''temp_videos/s1.mp4'',
        ApiVideoCreate ''clip'', ApiVideoUploadSource ''vi1'']"
    "video_submissions upload_failure_world = [demo_submission]"
    "notify_requests upload_failure_world ''s1'' ''u1'' ''error'' failure_message =
      [LambdaInvoke ''response-handler'' (NotifyPayload
        \<lparr>ne_submission_id = Some ''s1'', ne_volunteer_id = Some ''u1'',
         ne_status = Some ''error'', ne_message = Some failure_message\<rparr>)]"
    by (simp_all add: demo_defs notify_requests_def)
  obtain w2 w3 where
    run: "process_video_submission upload_failure_world ''s1'' ''u1'' ''temp_videos/s1.mp4''
            ''clip'' = (Inl (Exception ''api.video HTTP upload failed: 503 Server Error''), w2)"
    and handler: "video_processor_lambda_handler upload_failure_world demo_publish_event =
            (Response500 ''api.video HTTP upload failed: 503 Server Error'' ''s1'', w3)"
    and t2: "trace w2 = trace ?w1 @
            notify_requests upload_failure_world ''s1'' ''u1'' ''error'' failure_message"
    and t3: "trace w3 = trace w2"
    and r2: "video_submissions w2 =
            decline_rows ''s1'' ''api.video HTTP upload failed: 503 Server Error''
              (clock upload_failure_world) (video_submissions upload_failure_world)"
    and r3: "video_submissions w3 =
             (if db_usable w2
              then decline_rows ''s1''
                     ''Processing failed: api.video HTTP upload failed: 503 Server Error''
                     (clock upload_failure_world) (video_submissions w2)
              else video_submissions w2)"
    using failure_path [OF body ev] u1 by auto
  have "db_usable (snd (process_video_submission upload_failure_world ''s1'' ''u1''
      ''temp_videos/s1.mp4'' ''clip''))"
    by (simp add: publish_defs demo_defs db_defs Let_def db_usable_def
        url_usable_def db_answers_def)
  then have u2: "db_usable w2"
    using run by simp
  show ?thesis
    using body ev run handler t2 t3 r2 r3 u2 facts
    by (simp add: decline_rows_def status_row_def demo_submission_def new_submission_def)
qed

theorem failure_without_database_counterexample:
  "fst (video_processor_lambda_handler no_database_world demo_publish_event) =
     Response500 ''DATABASE_URL environment variable not set'' ''s1'' \<and>
   map s_id (video_submissions no_database_world) = [''s1''] \<and>
   map status (video_submissions no_database_world) = [''PROCESSING''] \<and>
   map status (video_submissions (snd
     (video_processor_lambda_handler no_database_world demo_publish_event))) =
     [''PROCESSING''] \<and>
   map decline_reason (video_submissions (snd
     (video_processor_lambda_handler no_database_world demo_publish_event))) = [None]"
  by (simp add: publish_defs demo_defs db_defs Let_def)

text \<open>
  C6. Terminal consistency of the table (every row with status \<^verbatim>\<open>PENDING_REVIEW\<close> has a
  non-empty \<^verbatim>\<open>video_platform_url\<close>, every row with status \<^verbatim>\<open>DECLINED\<close> a non-empty
  \<^verbatim>\<open>decline_reason\<close>) is preserved by every write of the pipeline: by a whole invocation
  of the intake stage (the insert at \<^verbatim>\<open>PROCESSING\<close>), of the publish stage (the write of
  the URL with \<^verbatim>\<open>PENDING_REVIEW\<close>, the two writes of \<^verbatim>\<open>DECLINED\<close>) and of the
  notification stage, for every event and every answer of the collaborators. The reason
  written is the text of the exception; the texts the code builds are never empty, and
  the database driver is taken to give a message with each of its errors.
\<close>

theorem terminal_consistency_preserved:
  assumes "terminal_consistent_table w" and "driver_messages_given w"
  shows "terminal_consistent_table (snd (webhook_lambda_handler w update)) \<and>
         terminal_consistent_table (snd (video_processor_lambda_handler w publish)) \<and>
         terminal_consistent_table (snd (response_lambda_handler w notify))"
  using assms
  by (simp add: webhook_lambda_handler_terminal video_processor_lambda_handler_terminal
      response_lambda_handler_terminal)

theorem terminal_consistency_preserved_witness:
  "terminal_consistent_table upload_failure_world \<and>
   driver_messages_given upload_failure_world \<and>
   terminal_consistent_table
     (snd (webhook_lambda_handler upload_failure_world (Some (video_message ''u1'' ''f2'')))) \<and>
   terminal_consistent_table
     (snd (video_processor_lambda_handler upload_failure_world demo_publish_event)) \<and>
   terminal_consistent_table
     (snd (response_lambda_handler upload_failure_world demo_notify_event))"
proof -
  have h: "terminal_consistent_table upload_failure_world"
    "driver_messages_given upload_failure_world"
    by (simp_all add: terminal_consistent_table_def terminal_consistent_def
        driver_messages_given_def demo_defs)
  show ?thesis
    using h terminal_consistency_preserved [OF h] by simp
qed

text \<open>
  C3 (as amended). For every inbound chat event that carries no contact-share payload, in
  particular every event whose payload is a video or a qualifying document, from a chat
  identity for which no Volunteer record exists, the intake stage creates no Submission
  record, relays
  nothing to staging storage and returns the registration-required outcome; the
  registration prompt with the contact-share keyboard is the one request it issues when
  a bot token is configured, and no request at all is issued without one.
\<close>

theorem registration_gate:
  assumes c: "contact m = None"
      and n: "find (\<lambda>v. v_id v = chat_id (chat m)) (volunteers w) = None"
  shows "\<exists>w'. process_telegram_update w (Some m) =
           (Inr (RegistrationRequired (chat_id (chat m))
                   ''Registration request sent to new user''), w') \<and>
         video_submissions w' = video_submissions w \<and>
         s3_objects w' = s3_objects w \<and>
         trace w' = trace w @
           (if truthy (TELEGRAM_BOT_TOKEN (environ w))
            then [TelegramSendMessage (chat_id (chat m))
                    (RegistrationRequestText (user_first_name m)) RequestContactKeyboard]
            else [])"
proof -
  have "fst (check_volunteer_exists w (chat_id (chat m))) = None"
    using n by (simp add: check_volunteer_exists_eq)
  from registration_gate_general [OF c this] show ?thesis
    by (auto simp: unchanged_def prompt_requests_def)
qed

theorem registration_gate_witness:
  "contact (video_message ''u9'' ''f9'') = None \<and>
   find (\<lambda>v. v_id v = chat_id (chat (video_message ''u9'' ''f9''))) (volunteers demo_world) = None \<and>
   video_of (video_message ''u9'' ''f9'') = Some (''f9'', ''video'') \<and>
   fst (process_telegram_update demo_world (Some (video_message ''u9'' ''f9''))) =
     Inr (RegistrationRequired ''u9'' ''Registration request sent to new user'') \<and>
   video_submissions (snd (process_telegram_update demo_world (Some (video_message ''u9'' ''f9'')))) =
     [demo_submission] \<and>
   trace (snd (process_telegram_update demo_world (Some (video_message ''u9'' ''f9'')))) =
     [TelegramSendMessage ''u9'' (RegistrationRequestText ''there'') RequestContactKeyboard]"
proof -
  have h: "contact (video_message ''u9'' ''f9'') = None"
    "find (\<lambda>v. v_id v = chat_id (chat (video_message ''u9'' ''f9''))) (volunteers demo_world) = None"
    by (simp_all add: demo_defs)
  have v: "video_of (video_message ''u9'' ''f9'') = Some (''f9'', ''video'')"
    by (simp add: video_of_def demo_defs)
  have e: "truthy (TELEGRAM_BOT_TOKEN (environ demo_world))" "trace demo_world = []"
    "video_submissions demo_world = [demo_submission]"
    "chat_id (chat (video_message ''u9'' ''f9'')) = ''u9''"
    "user_first_name (video_message ''u9'' ''f9'') = ''there''"
    by (simp_all add: demo_defs user_first_name_def user_get_def)
  show ?thesis
    using h v e registration_gate [OF h] by auto
qed

theorem registration_prompt_without_token_counterexample:
  "contact (video_message ''u9'' ''f9'') = None \<and>
   map v_id (volunteers no_token_world) = [''u1''] \<and>
   video_of (video_message ''u9'' ''f9'') = Some (''f9'', ''video'') \<and>
   fst (process_telegram_update no_token_world (Some (video_message ''u9'' ''f9''))) =
     Inr (RegistrationRequired ''u9'' ''Registration request sent to new user'') \<and>
   trace no_token_world = [] \<and>
   trace (snd (process_telegram_update no_token_world (Some (video_message ''u9'' ''f9'')))) = []"
  by (simp add: intake_defs demo_defs db_defs)

text \<open>
  C9. Whenever the database is not usable for the lookup (the connection string is
  missing, empty or of an unsupported scheme, or the connection or query fails), the
  registration lookup answers \<^verbatim>\<open>None\<close>, registered or not; a video event (no contact-share
  payload) then gets the registration-required outcome and no Submission, and the
  outcome and the requests issued are those of any world in which the volunteer is
  absent (same bot token, same requests before).
\<close>

theorem lookup_failure_reads_as_unregistered:
  assumes d: "\<not> db_usable w" and c: "contact m = None"
  shows "fst (check_volunteer_exists w (chat_id (chat m))) = None \<and>
         (\<exists>w'. process_telegram_update w (Some m) =
            (Inr (RegistrationRequired (chat_id (chat m))
                    ''Registration request sent to new user''), w') \<and>
            video_submissions w' = video_submissions w \<and>
            s3_objects w' = s3_objects w \<and>
            (\<forall>u. find (\<lambda>v. v_id v = chat_id (chat m)) (volunteers u) = None \<and>
                 TELEGRAM_BOT_TOKEN (environ u) = TELEGRAM_BOT_TOKEN (environ w) \<and>
                 trace u = trace w \<longrightarrow>
                 fst (process_telegram_update u (Some m)) =
                   Inr (RegistrationRequired (chat_id (chat m))
                          ''Registration request sent to new user'') \<and>
                 trace (snd (process_telegram_update u (Some m))) = trace w'))"
proof -
  have n: "fst (check_volunteer_exists w (chat_id (chat m))) = None"
    using d by (simp add: check_volunteer_exists_eq)
  obtain w' where
    run: "process_telegram_update w (Some m) =
           (Inr (RegistrationRequired (chat_id (chat m))
                   ''Registration request sent to new user''), w')"
    and u: "unchanged w w'" and t: "trace w' = trace w @ prompt_requests w m"
    using registration_gate_general [OF c n] by blast
  have "fst (process_telegram_update u (Some m)) =
          Inr (RegistrationRequired (chat_id (chat m))
                 ''Registration request sent to new user'') \<and>
        trace (snd (process_telegram_update u (Some m))) = trace w'"
    if a: "find (\<lambda>v. v_id v = chat_id (chat m)) (volunteers u) = None"
      and b: "TELEGRAM_BOT_TOKEN (environ u) = TELEGRAM_BOT_TOKEN (environ w)"
      and e: "trace u = trace w" for u
  proof -
    have "fst (check_volunteer_exists u (chat_id (chat m))) = None"
      using a by (simp add: check_volunteer_exists_eq)
    from registration_gate_general [OF c this] show ?thesis
      using b e t by (auto simp: prompt_requests_def)
  qed
  then show ?thesis
    using n run u by (auto simp: unchanged_def)
qed

theorem lookup_failure_reads_as_unregistered_witness:
  "\<not> db_usable database_down_world \<and>
   contact (video_message ''u1'' ''f2'') = None \<and>
   find (\<lambda>v. v_id v = ''u1'') (volunteers database_down_world) = Some alice \<and>
   fst (check_volunteer_exists database_down_world ''u1'') = None \<and>
   fst (process_telegram_update database_down_world (Some (video_message ''u1'' ''f2''))) =
     Inr (RegistrationRequired ''u1'' ''Registration request sent to new user'') \<and>
   video_submissions (snd (process_telegram_update database_down_world
     (Some (video_message ''u1'' ''f2'')))) = [demo_submission]"
proof -
  have h: "\<not> db_usable database_down_world" "contact (video_message ''u1'' ''f2'') = None"
    by (simp_all add: db_usable_def db_answers_def demo_defs)
  have e: "find (\<lambda>v. v_id v = ''u1'') (volunteers database_down_world) = Some alice"
    "chat_id (chat (video_message ''u1'' ''f2'')) = ''u1''"
    "video_submissions database_down_world = [demo_submission]"
    by (simp_all add: demo_defs)
  show ?thesis
    using h e lookup_failure_reads_as_unregistered [OF h] by auto
qed

text \<open>
  C2. For every pair of video intakes carrying the same source-platform file identifier,
  the second run after the first (whatever else changes in between, the table of
  submissions apart): the pair creates at most one Submission record with that file
  identifier; when a record with the file identifier exists after the first intake, the
  second creates no record, relays nothing to staging and issues no request, and, its
  lookup answered by the database, returns the duplicate result with the identifier of
  that record; and after a first intake that returned success the record found is the one
  it created. The lookup precedes the insert in the function itself.
\<close>

theorem idempotent_intake:
  assumes first: "process_video_from_registered_user w m1 v1 f t1 = (r1, w1)"
      and between: "video_submissions w1' = video_submissions w1"
      and second: "process_video_from_registered_user w1' m2 v2 f t2 = (r2, w2)"
  shows "count_file f w2 \<le> count_file f w + 1 \<and>
         (\<forall>ex. find (\<lambda>vs. telegram_file_id vs = f) (video_submissions w1) = Some ex \<longrightarrow>
            unchanged w1' w2 \<and> trace w2 = trace w1' \<and>
            (db_usable w1' \<longrightarrow> r2 = Inr (Duplicate (s_id ex)))) \<and>
         (\<forall>sid vid pv ph k msg. r1 = Inr (Success sid vid pv ph k msg) \<longrightarrow>
            (\<exists>ex. find (\<lambda>vs. telegram_file_id vs = f) (video_submissions w1) = Some ex \<and>
                  s_id ex = sid))"
proof (intro conjI allI impI)
  let ?P = "\<lambda>vs. telegram_file_id vs = f"
  let ?new1 = "new_submission (uuid4 (services w) (uuid_count w)) (v_id v1) f (clock w)"
  let ?new2 = "new_submission (uuid4 (services w1') (uuid_count w1')) (v_id v2) f (clock w1')"
  show "count_file f w2 \<le> count_file f w + 1"
  proof (cases "video_submissions w1 = video_submissions w")
    case same1: True
    show ?thesis
    proof (cases "video_submissions w2 = video_submissions w1'")
      case True
      then show ?thesis
        using same1 between by (simp add: count_file_def)
    next
      case False
      then have "video_submissions w2 = video_submissions w1' @ [?new2]"
        using intake_first_rows [OF second] by simp
      then show ?thesis
        using same1 between by (simp add: count_file_def)
    qed
  next
    case False
    then have ins: "find ?P (video_submissions w) = None"
      "video_submissions w1 = video_submissions w @ [?new1]"
      using intake_first_rows [OF first] by simp_all
    then have "find ?P (video_submissions w1') = Some ?new1"
      using between by (simp add: find_snoc new_submission_def)
    then have "unchanged w1' w2"
      using intake_existing_row [OF second] by simp
    then have "video_submissions w2 = video_submissions w1"
      using between by (simp add: unchanged_def)
    then show ?thesis
      using ins(2) by (simp add: count_file_def)
  qed
next
  fix ex
  assume "find (\<lambda>vs. telegram_file_id vs = f) (video_submissions w1) = Some ex"
  then have ex: "find (\<lambda>vs. telegram_file_id vs = f) (video_submissions w1') = Some ex"
    using between by simp
  note r = intake_existing_row [OF second ex]
  show "unchanged w1' w2" "trace w2 = trace w1'"
    using r by simp_all
  show "r2 = Inr (Duplicate (s_id ex))" if "db_usable w1'"
    using r that by simp
next
  fix sid vid pv ph k msg
  assume "r1 = Inr (Success sid vid pv ph k msg)"
  then have "process_video_from_registered_user w m1 v1 f t1 =
      (Inr (Success sid vid pv ph k msg), w1)"
    using first by simp
  from intake_success_row [OF this]
  have "find (\<lambda>vs. telegram_file_id vs = f) (video_submissions w1) =
      Some (new_submission sid (v_id v1) f (clock w))"
    by (simp add: find_snoc new_submission_def)
  then show "\<exists>ex. find (\<lambda>vs. telegram_file_id vs = f) (video_submissions w1) = Some ex \<and>
      s_id ex = sid"
    by (simp add: new_submission_def)
qed

theorem idempotent_intake_witness:
  "fst (process_video_from_registered_user demo_world (video_message ''u1'' ''f2'') alice
          ''f2'' ''video'') =
     Inr (Success ''uuid-'' ''u1'' True (Some ''+15550100'') ''temp_videos/uuid-.mp4''
            ''Video processing started for registered user'') \<and>
   count_file ''f2'' demo_world = 0 \<and>
   fst (process_video_from_registered_user
          (snd (process_video_from_registered_user demo_world (video_message ''u1'' ''f2'') alice
                  ''f2'' ''video''))
          (video_message ''u1'' ''f2'') alice ''f2'' ''video'') = Inr (Duplicate ''uuid-'') \<and>
   count_file ''f2''
     (snd (process_video_from_registered_user
          (snd (process_video_from_registered_user demo_world (video_message ''u1'' ''f2'') alice
                  ''f2'' ''video''))
          (video_message ''u1'' ''f2'') alice ''f2'' ''video'')) \<le> 1 \<and>
   trace (snd (process_video_from_registered_user
          (snd (process_video_from_registered_user demo_world (video_message ''u1'' ''f2'') alice
                  ''f2'' ''video''))
          (video_message ''u1'' ''f2'') alice ''f2'' ''video'')) =
   trace (snd (process_video_from_registered_user demo_world (video_message ''u1'' ''f2'') alice
                  ''f2'' ''video''))"
proof -
  let ?m = "video_message ''u1'' ''f2''"
  let ?one = "process_video_from_registered_user demo_world ?m alice ''f2'' ''video''"
  let ?two = "process_video_from_registered_user (snd ?one) ?m alice ''f2'' ''video''"
  have first: "?one = (fst ?one, snd ?one)"
    by simp
  have second: "?two = (fst ?two, snd ?two)"
    by simp
  have r1: "fst ?one =
     Inr (Success ''uuid-'' ''u1'' True (Some ''+15550100'') ''temp_videos/uuid-.mp4''
            ''Video processing started for registered user'')"
    by (simp add: intake_defs demo_defs db_defs Let_def)
  have usable: "db_usable (snd ?one)"
    by (simp add: intake_defs demo_defs db_defs Let_def db_usable_def url_usable_def
        db_answers_def)
  have zero: "count_file ''f2'' demo_world = 0"
    by (simp add: count_file_def demo_defs)
  note t = idempotent_intake [OF first refl second]
  obtain ex where ex: "find (\<lambda>vs. telegram_file_id vs = ''f2'') (video_submissions (snd ?one)) =
      Some ex" "s_id ex = ''uuid-''"
    using t r1 by blast
  have "fst ?two = Inr (Duplicate ''uuid-'')" "trace (snd ?two) = trace (snd ?one)"
    using t ex usable by simp_all
  moreover have "count_file ''f2'' (snd ?two) \<le> 1"
    using t zero by simp
  ultimately show ?thesis
    using r1 zero by simp
qed

text \<open>
  C8. For every notification-stage invocation with a well-formed trigger payload, the
  body of the entry point does not raise: it returns the result of the delivery with
  status code 200, for every world. A network or transport failure of the delivery
  becomes the result with \<^verbatim>\<open>sent: False\<close> and the text \<^verbatim>\<open>Network error: ...\<close>; even the
  absent bot token becomes a result with \<^verbatim>\<open>sent: False\<close> instead of an exception.
\<close>

theorem notification_stage_never_raises:
  assumes ev: "ne_submission_id ev = Some sid" "ne_volunteer_id ev = Some vid"
      "ne_status ev = Some st" "ne_message ev = Some msg"
  shows "\<exists>res w'.
           response_handler_try w ev = (Inr res, w') \<and>
           response_lambda_handler w ev = (Response200 res, w') \<and>
           res = fst (send_telegram_response w vid sid st msg) \<and>
           (\<forall>m. truthy (TELEGRAM_BOT_TOKEN (environ w)) \<and>
                tg_sendMessage (services w) = HttpError m \<longrightarrow>
                res = \<lparr>sent = False, message_id = None,
                       error = Some (''Network error: '' @ m),
                       sr_chat_id = vid, sr_status = st\<rparr>) \<and>
           (\<not> truthy (TELEGRAM_BOT_TOKEN (environ w)) \<longrightarrow>
                res = \<lparr>sent = False, message_id = None,
                       error = Some ''TELEGRAM_BOT_TOKEN environment variable not set'',
                       sr_chat_id = vid, sr_status = st\<rparr>)"
proof -
  obtain res w0 where s: "send_telegram_response w vid sid st msg = (res, w0)"
    by (cases "send_telegram_response w vid sid st msg")
  let ?w' = "update_notification_status w0 sid (sent res)"
  have t: "response_handler_try w ev = (Inr res, ?w')"
    using ev s by (simp add: response_handler_try_def)
  then have h: "response_lambda_handler w ev = (Response200 res, ?w')"
    by (simp add: response_lambda_handler_def)
  have net: "res = \<lparr>sent = False, message_id = None, error = Some (''Network error: '' @ m),
                     sr_chat_id = vid, sr_status = st\<rparr>"
    if tok: "truthy (TELEGRAM_BOT_TOKEN (environ w))"
      and err: "tg_sendMessage (services w) = HttpError m" for m
  proof -
    obtain d w1 where g: "get_submission_details w sid = (d, w1)"
      by (cases "get_submission_details w sid")
    have "services w1 = services w"
      using get_submission_details_unchanged [OF g] by (simp add: unchanged_def)
    then have "\<exists>w2. send_telegram_response_try w vid sid st msg = (Inl (RequestException m), w2)"
      using tok err g by (simp add: send_telegram_response_try_def Let_def)
    then show ?thesis
      using s by (auto simp: send_telegram_response_def)
  qed
  have cfg: "res = \<lparr>sent = False, message_id = None,
                     error = Some ''TELEGRAM_BOT_TOKEN environment variable not set'',
                     sr_chat_id = vid, sr_status = st\<rparr>"
    if "\<not> truthy (TELEGRAM_BOT_TOKEN (environ w))"
    using that s by (simp add: send_telegram_response_def send_telegram_response_try_def)
  show ?thesis
    using t h s net cfg by auto
qed

theorem notification_stage_never_raises_witness:
  "ne_submission_id demo_notify_event = Some ''s1'' \<and>
   ne_volunteer_id demo_notify_event = Some ''u1'' \<and>
   ne_status demo_notify_event = Some ''success'' \<and>
   ne_message demo_notify_event = Some success_message \<and>
   truthy (TELEGRAM_BOT_TOKEN (environ telegram_down_world)) \<and>
   tg_sendMessage (services telegram_down_world) = HttpError ''Connection timed out'' \<and>
   fst (response_lambda_handler telegram_down_world demo_notify_event) =
     Response200 \<lparr>sent = False, message_id = None,
                   error = Some ''Network error: Connection timed out'',
                   sr_chat_id = ''u1'', sr_status = ''success''\<rparr>"
proof -
  have ev: "ne_submission_id demo_notify_event = Some ''s1''"
    "ne_volunteer_id demo_notify_event = Some ''u1''"
    "ne_status demo_notify_event = Some ''success''"
    "ne_message demo_notify_event = Some success_message"
    by (simp_all add: demo_defs)
  have net: "truthy (TELEGRAM_BOT_TOKEN (environ telegram_down_world))"
    "tg_sendMessage (services telegram_down_world) = HttpError ''Connection timed out''"
    by (simp_all add: demo_defs)
  show ?thesis
    using ev net notification_stage_never_raises [OF ev, of telegram_down_world]
    by auto
qed

text \<open>
  C10. The write of the notification fields keeps the invariant that
  \<^verbatim>\<open>notification_sent_at\<close> is non-null exactly when \<^verbatim>\<open>notification_sent\<close> is true: the one
  update sets \<^verbatim>\<open>notification_sent\<close> to the delivery boolean and \<^verbatim>\<open>notification_sent_at\<close> to
  the current time if sent, else to null, on the rows of the submission identifier (when
  the database is usable; otherwise nothing is written), so every written row is
  consistent and a consistent table stays consistent.
\<close>

theorem notification_fields_consistent:
  "(notification_consistent_table w \<longrightarrow>
      notification_consistent_table (update_notification_status w sid b)) \<and>
   video_submissions (update_notification_status w sid b) =
     (if db_usable w
      then map (\<lambda>vs. if s_id vs = sid
                     then vs\<lparr>notification_sent := Some b,
                            notification_sent_at := (if b then Some (clock w) else None),
                            s_updated_at := clock w\<rparr>
                     else vs) (video_submissions w)
      else video_submissions w) \<and>
   (db_usable w \<longrightarrow>
      (\<forall>vs \<in> set (video_submissions (update_notification_status w sid b)).
         s_id vs = sid \<longrightarrow> notification_consistent vs \<and> notification_sent vs = Some b))"
proof (intro conjI impI ballI)
  let ?stamp = "\<lambda>vs. if s_id vs = sid then notification_row b (clock w) vs else vs"
  have row: "notification_consistent (notification_row b now vs)" for now vs
    by (simp add: notification_consistent_def notification_row_def)
  have sent: "notification_sent (notification_row b now vs) = Some b" for now vs
    by (simp add: notification_row_def)
  have rows: "video_submissions (update_notification_status w sid b) =
     (if db_usable w then map ?stamp (video_submissions w) else video_submissions w)"
    by (simp add: update_notification_status_eq)
  show "video_submissions (update_notification_status w sid b) =
     (if db_usable w
      then map (\<lambda>vs. if s_id vs = sid
                     then vs\<lparr>notification_sent := Some b,
                            notification_sent_at := (if b then Some (clock w) else None),
                            s_updated_at := clock w\<rparr>
                     else vs) (video_submissions w)
      else video_submissions w)"
    unfolding rows notification_row_def ..
  show "notification_consistent_table (update_notification_status w sid b)"
    if inv: "notification_consistent_table w"
  proof (cases "db_usable w")
    case True
    have "list_all notification_consistent (map ?stamp (video_submissions w))"
      using inv row by (auto simp: notification_consistent_table_def list_all_iff)
    then show ?thesis
      using True by (simp add: notification_consistent_table_def rows)
  next
    case False
    then show ?thesis
      using inv by (simp add: notification_consistent_table_def rows)
  qed
  fix vs
  assume u: "db_usable w"
    and mem: "vs \<in> set (video_submissions (update_notification_status w sid b))"
    and id: "s_id vs = sid"
  from mem u obtain old where old: "old \<in> set (video_submissions w)" "vs = ?stamp old"
    by (auto simp: rows)
  have "s_id old = sid"
  proof (rule ccontr)
    assume "s_id old \<noteq> sid"
    then have "vs = old"
      using old(2) by simp
    then show False
      using id \<open>s_id old \<noteq> sid\<close> by simp
  qed
  then have vs: "vs = notification_row b (clock w) old"
    using old(2) by simp
  show "notification_consistent vs"
    unfolding vs by (rule row)
  show "notification_sent vs = Some b"
    unfolding vs by (rule sent)
qed

theorem notification_fields_consistent_witness:
  "notification_consistent_table demo_world \<and> db_usable demo_world \<and>
   notification_consistent_table (update_notification_status demo_world ''s1'' True) \<and>
   map (\<lambda>vs. (notification_sent vs, notification_sent_at vs))
     (video_submissions (update_notification_status demo_world ''s1'' True)) =
     [(Some True, Some 100)] \<and>
   map (\<lambda>vs. (notification_sent vs, notification_sent_at vs))
     (video_submissions (update_notification_status demo_world ''s1'' False)) =
     [(Some False, None)]"
proof -
  have h: "notification_consistent_table demo_world" "db_usable demo_world"
    by (simp_all add: notification_consistent_table_def notification_consistent_def
        db_usable_def url_usable_def db_answers_def async_scheme_def demo_defs)
  have e: "video_submissions demo_world = [demo_submission]" "clock demo_world = 100"
    "s_id demo_submission = ''s1''"
    by (simp_all add: demo_defs)
  show ?thesis
    using h e notification_fields_consistent [of demo_world "''s1''" True]
      notification_fields_consistent [of demo_world "''s1''" False]
    by simp
qed

end
